theory Spec2Isabelle
  imports Main "HOL-Library.Word"
begin

section \<open>JavaScript values used by the adapter\<close>

text \<open>
  Strings are sequences of code units, modelled as \<^typ>\<open>string\<close>. A string is truthy
  when it is present (not \<open>undefined\<close>/\<open>null\<close>) and not empty.
\<close>

definition truthy :: "string option \<Rightarrow> bool" where
  "truthy v = (case v of None \<Rightarrow> False | Some s \<Rightarrow> s \<noteq> [])"

text \<open>\<open>a ?? b\<close>: the left operand unless it is \<open>undefined\<close> or \<open>null\<close>.\<close>

definition nullish :: "'a option \<Rightarrow> 'a option \<Rightarrow> 'a option" where
  "nullish a b = (case a of None \<Rightarrow> b | Some x \<Rightarrow> Some x)"

text \<open>\<open>a || b\<close> on strings: the left operand when it is truthy.\<close>

definition or_else :: "string \<Rightarrow> string \<Rightarrow> string" where
  "or_else a b = (if a \<noteq> [] then a else b)"

text \<open>Decimal rendering of a non-negative integer, as a template literal prints it.\<close>

definition digit_char :: "nat \<Rightarrow> char" where
  "digit_char d = ''0123456789'' ! d"

fun string_of_nat :: "nat \<Rightarrow> string" where
  "string_of_nat n =
     (if n < 10 then [digit_char n] else string_of_nat (n div 10) @ [digit_char (n mod 10)])"

declare string_of_nat.simps [simp del]

subsection \<open>The insertion-ordered \<open>Map\<close>\<close>

text \<open>
  A JavaScript \<open>Map\<close> iterates in insertion order; \<open>set\<close> on a key already present
  replaces the value and keeps the key's position; \<open>delete\<close> removes the entry and is
  a no-op on an absent key. The model is an association list in insertion order.
\<close>

type_synonym ('k, 'v) js_map = "('k \<times> 'v) list"

fun Map_set :: "'k \<Rightarrow> 'v \<Rightarrow> ('k, 'v) js_map \<Rightarrow> ('k, 'v) js_map" where
  "Map_set k v [] = [(k, v)]"
| "Map_set k v (p # ps) = (if fst p = k then (k, v) # ps else p # Map_set k v ps)"

definition Map_delete :: "'k \<Rightarrow> ('k, 'v) js_map \<Rightarrow> ('k, 'v) js_map" where
  "Map_delete k m = filter (\<lambda>p. fst p \<noteq> k) m"

definition Map_get :: "('k, 'v) js_map \<Rightarrow> 'k \<Rightarrow> 'v option" where
  "Map_get m k = map_of m k"

definition Map_has :: "('k, 'v) js_map \<Rightarrow> 'k \<Rightarrow> bool" where
  "Map_has m k = (Map_get m k \<noteq> None)"

definition Map_size :: "('k, 'v) js_map \<Rightarrow> nat" where
  "Map_size m = length m"

text \<open>\<open>m.entries().next()\<close>: the first entry in insertion order, or done.\<close>

definition Map_first :: "('k, 'v) js_map \<Rightarrow> ('k \<times> 'v) option" where
  "Map_first m = (case m of [] \<Rightarrow> None | p # _ \<Rightarrow> Some p)"

definition Map_keys :: "('k, 'v) js_map \<Rightarrow> 'k list" where
  "Map_keys m = map fst m"

section \<open>Data model (types/index.ts and the bot client library's identifiers)\<close>

datatype InstallationLocation =
    CommunityIdentifier string
  | GroupChatIdentifier string
  | DirectChatIdentifier string

text \<open>The \<open>kind\<close> tag each identifier class carries.\<close>

fun location_kind :: "InstallationLocation \<Rightarrow> string" where
  "location_kind (CommunityIdentifier c) = ''community''"
| "location_kind (GroupChatIdentifier g) = ''group_chat''"
| "location_kind (DirectChatIdentifier u) = ''direct_chat''"

datatype ActionScope =
    CommunityActionScope InstallationLocation
  | ChatActionScope InstallationLocation

record Permissions =
  perm_chat :: nat
  perm_community :: nat
  perm_message :: nat

record InstallationRecord =
  rec_apiGateway :: string
  grantedCommandPermissions :: Permissions
  grantedAutonomousPermissions :: Permissions

record OpenChatInstallation =
  location :: InstallationLocation
  scope :: ActionScope
  inst_record :: InstallationRecord

datatype ChatKind = Direct | Group | Channel

text \<open>
  \<open>OpenChatMessageMetadata\<close>. The resolver receives these objects through \<open>any\<close>
  casts and tests fields for presence, so every field is optional in the model.
\<close>

record OpenChatMessageMetadata =
  chatKind :: "ChatKind option"
  chatId :: "string option"
  locationKey :: "string option"
  roomKey :: "string option"
  messageId :: "string option"
  threadId :: "nat option"
  replyToMessageId :: "string option"
  apiGateway :: "string option"

section \<open>Installation Registry (services/openchatClient.ts)\<close>

datatype log_entry = Info string | Debug string | Warn string | Error string

record service =
  installations :: "(string, OpenChatInstallation) js_map"
  logger :: "log_entry list"

fun getLocationKey :: "InstallationLocation \<Rightarrow> string" where
  "getLocationKey (CommunityIdentifier c) = ''community:'' @ c"
| "getLocationKey (GroupChatIdentifier g) = ''group:'' @ g"
| "getLocationKey (DirectChatIdentifier u) = ''direct:'' @ u"

definition scopeFromLocation :: "InstallationLocation \<Rightarrow> ActionScope" where
  "scopeFromLocation loc =
     (if location_kind loc = ''community'' then CommunityActionScope loc
      else ChatActionScope loc)"

definition recordInstallation ::
  "InstallationLocation \<Rightarrow> InstallationRecord \<Rightarrow> service \<Rightarrow> service" where
  "recordInstallation loc r s =
     (let sc = scopeFromLocation loc;
          key = getLocationKey loc
      in s\<lparr>installations :=
              Map_set key \<lparr>location = loc, scope = sc, inst_record = r\<rparr> (installations s),
            logger := logger s @
              [Info (''Bot installed in '' @ location_kind loc @ '': '' @ key
                     @ '' (messagePermMask=''
                     @ string_of_nat (perm_message (grantedAutonomousPermissions r)) @ '')'')]\<rparr>)"

definition recordUninstallation :: "InstallationLocation \<Rightarrow> service \<Rightarrow> service" where
  "recordUninstallation loc s =
     (let key = getLocationKey loc
      in s\<lparr>installations := Map_delete key (installations s),
            logger := logger s @ [Info (''Bot uninstalled from scope: '' @ key)]\<rparr>)"

definition getInstallations :: "service \<Rightarrow> (string, OpenChatInstallation) js_map" where
  "getInstallations s = installations s"


definition getChatKindFromLocation :: "InstallationLocation \<Rightarrow> ChatKind" where
  "getChatKindFromLocation loc =
     (if location_kind loc = ''direct_chat'' then Direct
      else if location_kind loc = ''group_chat'' then Group
      else Channel)"

text \<open>
  \<open>describeLocation\<close> ends in a \<open>return "unknown"\<close> for a value of none of the three
  identifier classes; the datatype has no such value.
\<close>

fun describeLocation :: "InstallationLocation \<Rightarrow> string" where
  "describeLocation (CommunityIdentifier c) = c"
| "describeLocation (GroupChatIdentifier g) = g"
| "describeLocation (DirectChatIdentifier u) = u"

definition getRoomKeyFromLocation :: "InstallationLocation \<Rightarrow> nat option \<Rightarrow> string" where
  "getRoomKeyFromLocation loc thread =
     (let base = describeLocation loc
      in case thread of Some t \<Rightarrow> base @ '':'' @ string_of_nat t | None \<Rightarrow> base)"

definition buildMetadataFromInstallation ::
  "string \<Rightarrow> OpenChatInstallation \<Rightarrow> OpenChatMessageMetadata option
     \<Rightarrow> OpenChatMessageMetadata" where
  "buildMetadataFromInstallation key installation overrides =
     \<lparr>chatKind = Some (getChatKindFromLocation (location installation)),
      chatId = Some (describeLocation (location installation)),
      locationKey = Some key,
      roomKey = Some (getRoomKeyFromLocation (location installation)
                        (Option.bind overrides threadId)),
      messageId = Some (case Option.bind overrides messageId of Some i \<Rightarrow> i | None \<Rightarrow> []),
      threadId = Option.bind overrides threadId,
      replyToMessageId = Option.bind overrides replyToMessageId,
      apiGateway = Some (case Option.bind overrides apiGateway of
                           Some g \<Rightarrow> g
                         | None \<Rightarrow> rec_apiGateway (inst_record installation))\<rparr>"

text \<open>
  A client made by the factory in autonomous context is determined by the scope, gateway
  and permissions it was made with; the client that arrives with an event is opaque.
\<close>

datatype BotClient =
    AutonomousClient ActionScope string Permissions
  | EventClient string

definition createClientForScope :: "ActionScope \<Rightarrow> string \<Rightarrow> Permissions \<Rightarrow> BotClient" where
  "createClientForScope sc gateway perms = AutonomousClient sc gateway perms"

section \<open>Context Resolver (actions/openChatActionContext.ts)\<close>

text \<open>
  The parts of the call options, the conversation state and the message that the
  resolver reads: \<open>options.openchatMetadata\<close>, \<open>options.metadata.openchat\<close>,
  \<open>options.openchat.locationKey\<close>, \<open>state.openchat.metadata\<close>,
  \<open>state.openchat.locationKey\<close> and \<open>message.metadata.openchat\<close>. Options and state
  may be \<open>undefined\<close> as a whole.
\<close>

record Options =
  opt_openchatMetadata :: "OpenChatMessageMetadata option"
  opt_metadata_openchat :: "OpenChatMessageMetadata option"
  opt_openchat_locationKey :: "string option"

record State =
  st_openchat_metadata :: "OpenChatMessageMetadata option"
  st_openchat_locationKey :: "string option"

record Memory =
  mem_metadata_openchat :: "OpenChatMessageMetadata option"

text \<open>
  The candidate contributed by the call options: \<open>options.openchatMetadata\<close> when it is
  set, otherwise \<open>options.metadata.openchat\<close>; and the one contributed by the state.
\<close>

definition option_metadata :: "Options option \<Rightarrow> OpenChatMessageMetadata option" where
  "option_metadata options =
     (case Option.bind options opt_openchatMetadata of
        Some m \<Rightarrow> Some m
      | None \<Rightarrow> Option.bind options opt_metadata_openchat)"

definition state_metadata :: "State option \<Rightarrow> OpenChatMessageMetadata option" where
  "state_metadata state = Option.bind state st_openchat_metadata"

text \<open>
  The array \<open>candidates\<close>: the option and the state candidate are pushed only when
  present, the message's one always (possibly \<open>undefined\<close>).
\<close>

definition pushed :: "OpenChatMessageMetadata option \<Rightarrow> OpenChatMessageMetadata option list" where
  "pushed c = (case c of None \<Rightarrow> [] | Some m \<Rightarrow> [Some m])"

definition candidates ::
  "Memory \<Rightarrow> State option \<Rightarrow> Options option \<Rightarrow> OpenChatMessageMetadata option list" where
  "candidates message state options =
     pushed (option_metadata options) @ pushed (state_metadata state)
     @ [mem_metadata_openchat message]"

definition has_locationKey :: "OpenChatMessageMetadata option \<Rightarrow> bool" where
  "has_locationKey candidate = truthy (Option.bind candidate locationKey)"

definition extractMetadata ::
  "Memory \<Rightarrow> State option \<Rightarrow> Options option \<Rightarrow> OpenChatMessageMetadata option" where
  "extractMetadata message state options =
     (case List.find has_locationKey (candidates message state options) of
        None \<Rightarrow> None
      | Some candidate \<Rightarrow> candidate)"

record OpenChatResolvedContext =
  ctx_service :: service
  ctx_metadata :: OpenChatMessageMetadata
  ctx_installation :: OpenChatInstallation
  ctx_client :: BotClient

text \<open>
  The source keeps two variables, \<open>installation\<close> and \<open>locationKey\<close>, and assigns them
  together; the model keeps the pair. Each step runs only while the pair is unset.
\<close>

definition by_metadata_key ::
  "(string, OpenChatInstallation) js_map \<Rightarrow> OpenChatMessageMetadata option
     \<Rightarrow> (string \<times> OpenChatInstallation) option" where
  "by_metadata_key insts metadata =
     (case Option.bind metadata locationKey of
        None \<Rightarrow> None
      | Some k \<Rightarrow> if k = [] then None
                  else (case Map_get insts k of
                          None \<Rightarrow> None
                        | Some existing \<Rightarrow> Some (k, existing)))"

definition preferredKey :: "State option \<Rightarrow> Options option \<Rightarrow> string option" where
  "preferredKey state options =
     nullish (Option.bind options opt_openchat_locationKey)
             (Option.bind state st_openchat_locationKey)"

definition by_preferred_key ::
  "(string, OpenChatInstallation) js_map \<Rightarrow> State option \<Rightarrow> Options option
     \<Rightarrow> (string \<times> OpenChatInstallation) option" where
  "by_preferred_key insts state options =
     (case preferredKey state options of
        None \<Rightarrow> None
      | Some k \<Rightarrow> if k \<noteq> [] \<and> Map_has insts k
                  then map_option (Pair k) (Map_get insts k)
                  else None)"

definition resolveOpenChatContext ::
  "service option \<Rightarrow> Memory \<Rightarrow> State option \<Rightarrow> Options option
     \<Rightarrow> OpenChatResolvedContext option" where
  "resolveOpenChatContext runtime_service message state options =
     (case runtime_service of
        None \<Rightarrow> None
      | Some svc \<Rightarrow>
          let insts = getInstallations svc in
          if Map_size insts = 0 then None
          else
            let metadata = extractMetadata message state options;
                step1 = by_metadata_key insts metadata;
                step2 = (case step1 of Some r \<Rightarrow> Some r
                         | None \<Rightarrow> by_preferred_key insts state options);
                step3 = (case step2 of Some r \<Rightarrow> Some r | None \<Rightarrow> Map_first insts)
            in case step3 of
                 None \<Rightarrow> None
               | Some (key, installation) \<Rightarrow>
                   if key = [] then None
                   else
                     let metadata' =
                           (case metadata of
                              None \<Rightarrow> buildMetadataFromInstallation key installation None
                            | Some m \<Rightarrow>
                                if \<not> truthy (locationKey m)
                                then (buildMetadataFromInstallation key installation (Some m))
                                       \<lparr>locationKey := Some key\<rparr>
                                else m)
                     in Some \<lparr>ctx_service = svc,
                              ctx_metadata = metadata',
                              ctx_installation = installation,
                              ctx_client = createClientForScope (scope installation)
                                (rec_apiGateway (inst_record installation))
                                (grantedAutonomousPermissions (inst_record installation))\<rparr>)"

text \<open>
  In the branch for a found metadata object without a location key the source writes
  \<open>{...metadata, ...buildMetadataFromInstallation(key, installation, metadata), locationKey}\<close>.
  The object literal of \<open>buildMetadataFromInstallation\<close> defines all eight properties, so
  each of them shadows the property spread from \<open>metadata\<close>: the result is the built
  object with \<open>locationKey\<close> set again.
\<close>

text \<open>
  The Registry as the service maintains it: keys are distinct and every entry sits at the
  key of its own location.
\<close>

definition registry_ok :: "(string, OpenChatInstallation) js_map \<Rightarrow> bool" where
  "registry_ok m =
     (distinct (Map_keys m) \<and> list_all (\<lambda>p. fst p = getLocationKey (location (snd p))) m)"

definition empty_service :: service where
  "empty_service = \<lparr>installations = [], logger = []\<rparr>"

text \<open>
  The Registry is private to the service and changes only through install and uninstall
  notifications; \<open>after_events\<close> is the service after a sequence of them.
\<close>

datatype registry_event =
    Installed InstallationLocation InstallationRecord
  | Uninstalled InstallationLocation

fun after_events :: "registry_event list \<Rightarrow> service \<Rightarrow> service" where
  "after_events [] s = s"
| "after_events (Installed loc r # es) s = after_events es (recordInstallation loc r s)"
| "after_events (Uninstalled loc # es) s = after_events es (recordUninstallation loc s)"

section \<open>String operations of the source\<close>

text \<open>
  \<open>String.prototype.trim\<close> strips white space at both ends. A \<^typ>\<open>char\<close> stands for a
  code unit up to \<open>0xFF\<close>: the white space among those is tab, line feed, vertical tab,
  form feed, carriage return, space and the no-break space.
\<close>

definition is_space :: "char \<Rightarrow> bool" where
  "is_space c = (c \<in> set [CHR 0x09, CHR 0x0A, CHR 0x0B, CHR 0x0C, CHR 0x0D, CHR 0x20, CHR 0xA0])"

definition trim :: "string \<Rightarrow> string" where
  "trim s = rev (dropWhile is_space (rev (dropWhile is_space s)))"

text \<open>\<open>s.includes(t)\<close>: \<open>t\<close> occurs in \<open>s\<close> at some position.\<close>

fun str_includes :: "string \<Rightarrow> string \<Rightarrow> bool" where
  "str_includes [] t = (t = [])"
| "str_includes (c # s) t = (take (length t) (c # s) = t \<or> str_includes s t)"

text \<open>\<open>s.slice(0, n)\<close> and \<open>s.slice(-n)\<close>.\<close>

definition slice_head :: "nat \<Rightarrow> string \<Rightarrow> string" where
  "slice_head n s = take n s"

definition slice_tail :: "nat \<Rightarrow> string \<Rightarrow> string" where
  "slice_tail n s = drop (length s - n) s"

section \<open>Identity Mapper (utils/openchatIds.ts)\<close>

text \<open>
  \<open>uuidv5\<close> belongs to the \<open>uuid\<close> package: a function of the name and the namespace.
  The mappers take it as a parameter.
\<close>

definition OPENCHAT_UUID_NAMESPACE :: string where
  "OPENCHAT_UUID_NAMESPACE = ''6ba7b810-9dad-11d1-80b4-00c04fd430c8''"

definition room_name :: "string \<Rightarrow> string \<Rightarrow> string" where
  "room_name kind identifier = ''openchat-room-'' @ kind @ ''-'' @ identifier"

definition makeRoomUuid :: "(string \<Rightarrow> string \<Rightarrow> 'u) \<Rightarrow> string \<Rightarrow> string \<Rightarrow> 'u" where
  "makeRoomUuid uuidv5 kind identifier =
     uuidv5 (room_name kind identifier) OPENCHAT_UUID_NAMESPACE"

definition makeUserUuid :: "(string \<Rightarrow> string \<Rightarrow> 'u) \<Rightarrow> string \<Rightarrow> 'u" where
  "makeUserUuid uuidv5 identifier =
     uuidv5 (''openchat-user-'' @ identifier) OPENCHAT_UUID_NAMESPACE"

definition makeMessageUuid :: "(string \<Rightarrow> string \<Rightarrow> 'u) \<Rightarrow> string \<Rightarrow> 'u" where
  "makeMessageUuid uuidv5 identifier =
     uuidv5 (''openchat-message-'' @ identifier) OPENCHAT_UUID_NAMESPACE"

fun chatKind_text :: "ChatKind \<Rightarrow> string" where
  "chatKind_text Direct = ''direct''"
| "chatKind_text Group = ''group''"
| "chatKind_text Channel = ''channel''"

section \<open>User Directory Cache (services/openchatUserDirectory.ts)\<close>

type_synonym bytes = "8 word list"

record OpenChatUserProfile =
  up_userId :: string
  up_username :: "string option"
  up_displayName :: "string option"

datatype RawPrincipal = PrincipalText string | PrincipalBytes bytes

record RawUserSummary =
  user_id :: RawPrincipal
  stable :: "(string \<times> string option) option"

record CachedProfile =
  cp_profile :: OpenChatUserProfile
  expiresAt :: int

text \<open>
  What lies outside the directory: the principal codec (\<open>Principal.fromText\<close>,
  \<open>Principal.fromUint8Array(..).toText()\<close>; \<open>None\<close> where the library throws) and the
  \<open>users_msgpack\<close> query with its packed argument and unpacked reply. A reply carries the
  \<open>Success.users\<close> list when there is a \<open>Success\<close>.
\<close>

datatype query_outcome =
    Replied "RawUserSummary list option"
  | NotReplied
  | QueryThrew string

record remote =
  principal_fromText :: "string \<Rightarrow> bytes option"
  principal_toText :: "bytes \<Rightarrow> string option"
  users_msgpack :: "bytes list \<Rightarrow> query_outcome"

record directory =
  cache :: "(string, CachedProfile) js_map"
  cacheTtlMs :: int
  storageIndexCanisterId :: string

datatype effect =
    Logged log_entry
  | RemoteQuery "bytes list"
  | SendText BotClient string

definition DEFAULT_CACHE_TTL_MS :: int where
  "DEFAULT_CACHE_TTL_MS = 1000 * 60 * 15"

text \<open>The constructor: \<open>cacheTtlMs = options.cacheTtlMs ?? DEFAULT_CACHE_TTL_MS\<close>, empty cache.\<close>

definition new_directory :: "int option \<Rightarrow> string \<Rightarrow> directory" where
  "new_directory ttl canister =
     \<lparr>cache = [],
      cacheTtlMs = (case ttl of Some t \<Rightarrow> t | None \<Rightarrow> DEFAULT_CACHE_TTL_MS),
      storageIndexCanisterId = canister\<rparr>"

definition cacheKey :: "string \<Rightarrow> string \<Rightarrow> string" where
  "cacheKey gateway userId = gateway @ '':'' @ userId"

definition invalid_principal_warning :: "string \<Rightarrow> effect" where
  "invalid_principal_warning ident =
     Logged (Warn (''[OpenChat] Invalid principal provided to user directory '' @ ident))"

definition principalToBytes :: "remote \<Rightarrow> string \<Rightarrow> bytes option \<times> effect list" where
  "principalToBytes r ident =
     (case principal_fromText r ident of
        Some b \<Rightarrow> (Some b, [])
      | None \<Rightarrow> (None, [invalid_principal_warning ident]))"

definition principalToText :: "remote \<Rightarrow> RawPrincipal \<Rightarrow> string option \<times> effect list" where
  "principalToText r v =
     (case v of
        PrincipalText t \<Rightarrow> (Some t, [])
      | PrincipalBytes b \<Rightarrow>
          (case principal_toText r b of
             Some t \<Rightarrow> (Some t, [])
           | None \<Rightarrow> (None, [Logged (Warn ''[OpenChat] Unable to decode principal from user directory'')])))"

definition mapSummary ::
  "remote \<Rightarrow> RawUserSummary \<Rightarrow> OpenChatUserProfile option \<times> effect list" where
  "mapSummary r summary =
     (case principalToText r (user_id summary) of
        (None, effs) \<Rightarrow> (None, effs)
      | (Some uid, effs) \<Rightarrow>
          if uid = [] then (None, effs)
          else (Some \<lparr>up_userId = uid,
                      up_username = map_option fst (stable summary),
                      up_displayName = Option.bind (stable summary) snd\<rparr>, effs))"

text \<open>
  \<open>lookupProfiles\<close>: the result is the list of profiles or the thrown error's message;
  the effects are the warnings and the query, in the order they happen. The promise
  \<open>ready\<close> awaited first never rejects (\<open>ensureRootKey\<close> catches its own failure).
  A logger call's arguments are joined into one line; the texts of the libraries' own
  errors are not part of the model, so the error of a malformed canister id has a fixed
  text here.
\<close>

definition lookupProfiles ::
  "remote \<Rightarrow> directory \<Rightarrow> string list \<Rightarrow> (string + OpenChatUserProfile list) \<times> effect list" where
  "lookupProfiles r d userIds =
     (let encoded = map (principalToBytes r) userIds;
          warnings = concat (map snd encoded);
          normalizedIds = List.map_filter fst encoded
      in if normalizedIds = [] then (Inr [], warnings)
         else
           (case principal_fromText r (storageIndexCanisterId d) of
              None \<Rightarrow> (Inl ''invalid canister principal'', warnings)
            | Some canister \<Rightarrow>
                (case users_msgpack r normalizedIds of
                   QueryThrew e \<Rightarrow> (Inl e, warnings @ [RemoteQuery normalizedIds])
                 | NotReplied \<Rightarrow>
                     (Inl (''User directory query was rejected for '' @ storageIndexCanisterId d),
                      warnings @ [RemoteQuery normalizedIds])
                 | Replied None \<Rightarrow> (Inr [], warnings @ [RemoteQuery normalizedIds])
                 | Replied (Some users) \<Rightarrow>
                     (let mapped = map (mapSummary r) users
                      in (Inr (List.map_filter fst mapped),
                          warnings @ [RemoteQuery normalizedIds] @ concat (map snd mapped))))))"

text \<open>\<open>apiGateway ?? this.storageIndexCanisterId\<close>.\<close>

definition scope_key :: "directory \<Rightarrow> string option \<Rightarrow> string" where
  "scope_key d gateway = (case gateway of Some g \<Rightarrow> g | None \<Rightarrow> storageIndexCanisterId d)"

definition resolve_failed_warning :: "string \<Rightarrow> effect" where
  "resolve_failed_warning e = Logged (Warn (''[OpenChat] Failed to resolve user profile '' @ e))"

text \<open>
  \<open>getProfile\<close> reads the clock twice: \<open>now\<close> when it tests the cached entry and
  \<open>now'\<close> when it stores the fetched profile, after the lookup. It returns the profile
  (or \<open>null\<close>), the directory with its cache, and the effects. \<open>profile_lookup\<close> is its
  \<open>try\<close> block: the call \<open>lookupProfiles([userId])\<close>, the store of the first profile
  returned, and the \<open>catch\<close>.
\<close>

definition profile_lookup ::
  "remote \<Rightarrow> directory \<Rightarrow> string option \<Rightarrow> string \<Rightarrow> int
     \<Rightarrow> OpenChatUserProfile option \<times> directory \<times> effect list" where
  "profile_lookup r d gateway userId now' =
     (case lookupProfiles r d [userId] of
        (Inl e, effs) \<Rightarrow> (None, d, effs @ [resolve_failed_warning e])
      | (Inr [], effs) \<Rightarrow> (None, d, effs)
      | (Inr (profile # _), effs) \<Rightarrow>
          (Some profile,
           d\<lparr>cache := Map_set (cacheKey (scope_key d gateway) userId)
                        \<lparr>cp_profile = profile, expiresAt = now' + cacheTtlMs d\<rparr>
                        (cache d)\<rparr>,
           effs))"

definition getProfile ::
  "remote \<Rightarrow> directory \<Rightarrow> string option \<Rightarrow> string \<Rightarrow> int \<Rightarrow> int
     \<Rightarrow> OpenChatUserProfile option \<times> directory \<times> effect list" where
  "getProfile r d gateway userId now now' =
     (let scopeKey = scope_key d gateway
      in if scopeKey = [] \<or> userId = [] then (None, d, [])
         else
           let key = cacheKey scopeKey userId;
               cached = Map_get (cache d) key
           in if (case cached of None \<Rightarrow> False | Some c \<Rightarrow> expiresAt c > now)
              then (map_option cp_profile cached, d, [])
              else profile_lookup r d gateway userId now')"

section \<open>Event Router (bot/handlers/notify.ts)\<close>

datatype ChatIdentifier =
    GroupChat string
  | DirectChat string
  | ChannelChat string nat

text \<open>
  \<open>chatIdentifierToInstallationLocation\<close> of the bot client library: a channel is
  installed with its community, a group or direct chat with itself.
\<close>

fun chatIdentifierToInstallationLocation :: "ChatIdentifier \<Rightarrow> InstallationLocation" where
  "chatIdentifierToInstallationLocation (GroupChat g) = GroupChatIdentifier g"
| "chatIdentifierToInstallationLocation (DirectChat u) = DirectChatIdentifier u"
| "chatIdentifierToInstallationLocation (ChannelChat c n) = CommunityIdentifier c"

definition getInstallationByChatId :: "service \<Rightarrow> ChatIdentifier \<Rightarrow> OpenChatInstallation option" where
  "getInstallationByChatId s chat =
     Map_get (installations s) (getLocationKey (chatIdentifierToInstallationLocation chat))"

datatype MessageContent =
    TextContent "string option"
  | ImageContent "string option"
  | VideoContent "string option"
  | AudioContent "string option"
  | FileContent string
  | PollContent nat
  | OtherContent string

record OCMessageEvent =
  ev_deleted :: bool
  ev_senderContext :: "string option"
  ev_sender :: string
  ev_repliesTo :: "nat option"
  ev_content :: MessageContent
  ev_messageId :: nat

datatype ChatEventInner =
    MessageEvent OCMessageEvent
  | MemberJoined string
  | OtherEvent string

record BotChatEvent =
  ce_chatId :: ChatIdentifier
  ce_thread :: "nat option"
  ce_event :: ChatEventInner

text \<open>
  What the handlers use of the agent runtime: the character's name, the setting
  \<open>OPENCHAT_WELCOME_NEW_MEMBERS\<close>, the text model (\<open>None\<close> where \<open>useModel\<close> throws),
  whether creating and sending a text message through a client succeeds or throws,
  whether \<open>messageService\<close> is present, and whether \<open>ensureConnection\<close> succeeds.
\<close>

record runtime =
  character_name :: string
  welcome_setting :: "string option"
  useModel :: "string \<Rightarrow> string option"
  send_ok :: "BotClient \<Rightarrow> string \<Rightarrow> bool"
  messageService :: bool
  ensureConnection_ok :: bool

subsection \<open>The rejection callback of \<open>notifyHandler\<close>\<close>

datatype js_error = JsError string

text \<open>
  \<open>failure?.error\<close> is a string, an \<open>Error\<close>, absent, or some other value, which
  \<open>JSON.stringify\<close> renders (\<open>None\<close> where it yields \<open>undefined\<close>).
\<close>

datatype 'j rejection =
    RejectString string
  | RejectError js_error
  | RejectOther 'j
  | RejectAbsent

fun error_message :: "js_error \<Rightarrow> string" where
  "error_message (JsError m) = m"

definition errorMessage :: "('j \<Rightarrow> string option) \<Rightarrow> 'j rejection \<Rightarrow> string option" where
  "errorMessage stringify e =
     (case e of
        RejectString t \<Rightarrow> Some t
      | RejectError err \<Rightarrow> Some (error_message err)
      | RejectOther j \<Rightarrow> stringify j
      | RejectAbsent \<Rightarrow> Some ([CHR 0x22] @ ''Unknown error'' @ [CHR 0x22]))"

text \<open>The callback returns (here with its debug line) or throws (\<open>Inl\<close>).\<close>

definition notify_rejected :: "('j \<Rightarrow> string option) \<Rightarrow> 'j rejection \<Rightarrow> js_error + log_entry list" where
  "notify_rejected stringify e =
     (let msg = errorMessage stringify e
      in if msg = Some ''Invalid scope''
         then Inr [Debug ''[OpenChat] Ignoring notification without actionable scope (likely lifecycle event)'']
         else Inl (case e of
                     RejectError err \<Rightarrow> err
                   | _ \<Rightarrow> JsError (case msg of Some t \<Rightarrow> t | None \<Rightarrow> [])))"

subsection \<open>Welcoming a member\<close>

record member =
  descriptor :: string
  shortLabel :: string
  mention :: string

text \<open>The constant \<open>shortened\<close> of \<open>describeUser\<close>, as a function of the fallback.\<close>

definition shortened :: "string \<Rightarrow> string" where
  "shortened fallback = (if length fallback \<le> 11 then fallback
                         else slice_head 5 fallback @ ''...'' @ slice_tail 4 fallback)"

definition describeUser :: "OpenChatUserProfile option \<Rightarrow> string \<Rightarrow> member" where
  "describeUser profile fallback =
     (let username = map_option trim (Option.bind profile up_username);
          displayName = map_option trim (Option.bind profile up_displayName);
          mention = ''@UserId('' @ fallback @ '')'';
          handle = (case username of
                      None \<Rightarrow> None
                    | Some u \<Rightarrow> if u \<noteq> [] then Some (''@'' @ u) else None)
      in case (if truthy displayName then displayName else None, handle) of
           (Some dn, Some h) \<Rightarrow>
             \<lparr>descriptor = dn @ '' ('' @ h @ '')'', shortLabel = dn, mention = mention\<rparr>
         | (Some dn, None) \<Rightarrow> \<lparr>descriptor = dn, shortLabel = dn, mention = mention\<rparr>
         | (None, Some h) \<Rightarrow> \<lparr>descriptor = h, shortLabel = h, mention = mention\<rparr>
         | (None, None) \<Rightarrow>
             \<lparr>descriptor = shortened fallback, shortLabel = shortened fallback,
              mention = mention\<rparr>)"

text \<open>\<open>service.resolveUserProfile\<close>: \<open>null\<close> without a directory, else \<open>getProfile\<close>.\<close>

definition resolveUserProfile ::
  "remote \<Rightarrow> directory option \<Rightarrow> string \<Rightarrow> string option \<Rightarrow> int \<Rightarrow> int
     \<Rightarrow> OpenChatUserProfile option \<times> directory option \<times> effect list" where
  "resolveUserProfile r dir userId gateway now now' =
     (case dir of
        None \<Rightarrow> (None, None, [])
      | Some d \<Rightarrow> (case getProfile r d gateway userId now now' of
                    (p, d', effs) \<Rightarrow> (p, Some d', effs)))"

fun roomDescriptor :: "ChatIdentifier \<Rightarrow> string" where
  "roomDescriptor (GroupChat g) = ''group '' @ g"
| "roomDescriptor (DirectChat u) = ''this space''"
| "roomDescriptor (ChannelChat c n) = trim (''channel '' @ string_of_nat n)"

definition welcome_prompt :: "string \<Rightarrow> string \<Rightarrow> string \<Rightarrow> string" where
  "welcome_prompt name who room =
     ''You are '' @ name @ ''.'' @ [CHR 0x0A]
     @ ''Craft a warm human welcome for '' @ who @ '' who just joined '' @ room @ ''.''
     @ [CHR 0x0A]
     @ ''Keep it <=2 sentences, weave in one starter question, and avoid AI disclaimers.''"

text \<open>The waving hand that ends the stock welcome, as its four UTF-8 bytes.\<close>

definition waving_hand :: string where
  "waving_hand = [CHR 0xF0, CHR 0x9F, CHR 0x91, CHR 0x8B]"

text \<open>
  Steps of \<open>handleMemberJoined\<close>: the stock text used when the model gave nothing,
  and the test that puts the mention token in front of a text that lacks it.
\<close>

definition stock_welcome :: "string \<Rightarrow> string" where
  "stock_welcome label = ''Welcome to the chat, '' @ label @ ''! '' @ waving_hand"

definition ensure_mention :: "string \<Rightarrow> string \<Rightarrow> string" where
  "ensure_mention token welcomeMsg =
     (if \<not> str_includes welcomeMsg token then trim (token @ '' '' @ welcomeMsg)
      else welcomeMsg)"

text \<open>
  The text the model gives for the prompt, trimmed; the stock text when the model throws
  or gives nothing.
\<close>

definition generate_welcome :: "runtime \<Rightarrow> member \<Rightarrow> ChatIdentifier \<Rightarrow> string \<times> effect list" where
  "generate_welcome rt who chat =
     (let prompt = welcome_prompt (character_name rt) (descriptor who) (roomDescriptor chat);
          generated = (case useModel rt prompt of
                         Some out \<Rightarrow> (trim out, [])
                       | None \<Rightarrow>
                           ([], [Logged (Warn ''[OpenChat] Failed to generate LLM welcome'')]))
      in (if fst generated = [] then stock_welcome (shortLabel who) else fst generated,
          snd generated))"

text \<open>
  \<open>handleMemberJoined\<close> returns the directory (its cache may have been filled) and the
  effects; the text handed to \<open>createTextMessage\<close> is recorded by \<open>SendText\<close> whether
  or not sending succeeds.
\<close>

definition handleMemberJoined ::
  "remote \<Rightarrow> runtime \<Rightarrow> service \<Rightarrow> directory option \<Rightarrow> BotChatEvent \<Rightarrow> string
     \<Rightarrow> int \<Rightarrow> int \<Rightarrow> directory option \<times> effect list" where
  "handleMemberJoined r rt svc dir chatEvent gateway now now' =
     (case ce_event chatEvent of
        MemberJoined userId \<Rightarrow>
          if welcome_setting rt \<noteq> Some ''true'' then (dir, [])
          else
            (case getInstallationByChatId svc (ce_chatId chatEvent) of
               None \<Rightarrow>
                 (dir, [Logged (Warn ''[OpenChat] Received member_joined for unknown installation'')])
             | Some installation \<Rightarrow>
                 (let client = createClientForScope (scope installation)
                        (or_else (rec_apiGateway (inst_record installation)) gateway)
                        (grantedAutonomousPermissions (inst_record installation))
                  in case resolveUserProfile r dir userId
                         (Some (or_else (rec_apiGateway (inst_record installation)) gateway))
                         now now' of
                       (profile, dir', lookup_effects) \<Rightarrow>
                         (let who = describeUser profile userId;
                              generated = generate_welcome rt who (ce_chatId chatEvent);
                              final = ensure_mention (mention who) (fst generated)
                          in (dir',
                              lookup_effects @ snd generated @ [SendText client final]
                              @ (if send_ok rt client final then []
                                 else [Logged (Error ''[OpenChat] Failed to send member welcome'')])))))
      | _ \<Rightarrow> (dir, []))"

definition sent_texts :: "effect list \<Rightarrow> string list" where
  "sent_texts effs = concat (map (\<lambda>e. case e of SendText c t \<Rightarrow> [t] | _ \<Rightarrow> []) effs)"

definition remote_queries :: "effect list \<Rightarrow> bytes list list" where
  "remote_queries effs = concat (map (\<lambda>e. case e of RemoteQuery q \<Rightarrow> [q] | _ \<Rightarrow> []) effs)"

section \<open>Message Manager (services/openchatMessageManager.ts)\<close>

definition sanitizeText :: "string option \<Rightarrow> string" where
  "sanitizeText text =
     (case text of None \<Rightarrow> [] | Some t \<Rightarrow> trim (filter (\<lambda>c. c \<noteq> CHR 0x00) t))"

definition caption_suffix :: "string option \<Rightarrow> string" where
  "caption_suffix caption = (case caption of
                               None \<Rightarrow> []
                             | Some c \<Rightarrow> if c \<noteq> [] then '': '' @ c else [])"

fun buildPlaceholderForContent :: "OCMessageEvent \<Rightarrow> string" where
  "buildPlaceholderForContent e =
     (case ev_content e of
        TextContent t \<Rightarrow> sanitizeText t
      | ImageContent c \<Rightarrow> ''Received an image'' @ caption_suffix c
      | VideoContent c \<Rightarrow> ''Received a video'' @ caption_suffix c
      | AudioContent c \<Rightarrow> ''Received an audio clip'' @ caption_suffix c
      | FileContent n \<Rightarrow> ''Received a file: '' @ n
      | PollContent n \<Rightarrow> ''Received a poll with '' @ string_of_nat n @ '' options.''
      | OtherContent k \<Rightarrow>
          ''Received '' @ map (\<lambda>c. if c = CHR ''_'' then CHR '' '' else c) k @ ''.'')"

text \<open>A template literal prints an absent value as \<open>undefined\<close>.\<close>

definition js_text :: "string option \<Rightarrow> string" where
  "js_text v = (case v of None \<Rightarrow> ''undefined'' | Some t \<Rightarrow> t)"

datatype ChannelType = DM | GROUP

text \<open>
  The memory handed to the message service, with the fields computed here (the mention
  flag, the embedding and the time stamp are left out).
\<close>

record 'u IncomingMemory =
  im_id :: 'u
  im_entityId :: 'u
  im_roomId :: 'u
  im_text :: string
  im_channelType :: ChannelType
  im_isReply :: bool
  im_isThread :: bool
  im_inReplyTo :: "'u option"
  im_metadata :: OpenChatMessageMetadata
  im_sender :: string

datatype 'u manager_effect =
    ManagerLogged log_entry
  | EnsureConnection 'u 'u string ChannelType string
  | HandleMessage "'u IncomingMemory" BotClient

definition handleMessageEvent ::
  "(string \<Rightarrow> string \<Rightarrow> 'u) \<Rightarrow> runtime \<Rightarrow> BotClient \<Rightarrow> BotChatEvent
     \<Rightarrow> OpenChatMessageMetadata \<Rightarrow> 'u manager_effect list" where
  "handleMessageEvent uuidv5 rt botClient chatEvent metadata =
     (case ce_event chatEvent of
        MessageEvent event \<Rightarrow>
          if ev_deleted event then []
          else if ev_senderContext event = Some ''bot'' then []
          else
            (let textContent = buildPlaceholderForContent event
             in if textContent = []
                then [ManagerLogged (Debug ''[OpenChat] Skipping empty message event'')]
                else
                  (let channelType = (if chatKind metadata = Some Direct then DM else GROUP);
                       roomId = makeRoomUuid uuidv5
                                  (js_text (map_option chatKind_text (chatKind metadata)))
                                  (js_text (roomKey metadata));
                       senderId = makeUserUuid uuidv5 (ev_sender event);
                       incomingMessageId = makeMessageUuid uuidv5
                                  (js_text (chatId metadata) @ ''-'' @ js_text (messageId metadata));
                       connection =
                         EnsureConnection senderId roomId (ev_sender event) channelType
                           (js_text (chatId metadata))
                         # (if ensureConnection_ok rt then []
                            else [ManagerLogged (Warn ''[OpenChat] ensureConnection failed'')]);
                       is_thread = (case threadId metadata of None \<Rightarrow> False | Some t \<Rightarrow> t \<noteq> 0);
                       memory =
                         \<lparr>im_id = incomingMessageId,
                          im_entityId = senderId,
                          im_roomId = roomId,
                          im_text = textContent,
                          im_channelType = channelType,
                          im_isReply = (ev_repliesTo event \<noteq> None),
                          im_isThread = is_thread,
                          im_inReplyTo =
                            map_option (\<lambda>i. makeMessageUuid uuidv5
                                           (js_text (chatId metadata) @ ''-'' @ string_of_nat i))
                              (ev_repliesTo event),
                          im_metadata = metadata,
                          im_sender = ev_sender event\<rparr>
                   in if \<not> messageService rt
                      then connection
                           @ [ManagerLogged (Error ''[OpenChat] messageService is not available'')]
                      else connection @ [HandleMessage memory botClient]))
      | _ \<Rightarrow> [])"

definition forwarded :: "'u manager_effect list \<Rightarrow> 'u manager_effect list" where
  "forwarded effs =
     filter (\<lambda>e. case e of ManagerLogged l \<Rightarrow> False | _ \<Rightarrow> True) effs"

section \<open>Concrete installations and requests\<close>

text \<open>Sample data on which the statements below are instantiated.\<close>

definition sample_permissions :: Permissions where
  "sample_permissions = \<lparr>perm_chat = 0, perm_community = 0, perm_message = 31\<rparr>"

definition sample_record :: InstallationRecord where
  "sample_record = \<lparr>rec_apiGateway = ''https://gw.example'',
                     grantedCommandPermissions = sample_permissions,
                     grantedAutonomousPermissions = sample_permissions\<rparr>"

definition sample_installation :: "InstallationLocation \<Rightarrow> OpenChatInstallation" where
  "sample_installation loc =
     \<lparr>location = loc, scope = scopeFromLocation loc, inst_record = sample_record\<rparr>"

text \<open>Installed in this order: group \<open>42\<close>, direct chat \<open>u2\<close>, community \<open>c3\<close>.\<close>

definition sample_service :: service where
  "sample_service =
     recordInstallation (CommunityIdentifier ''c3'') sample_record
       (recordInstallation (DirectChatIdentifier ''u2'') sample_record
          (recordInstallation (GroupChatIdentifier ''42'') sample_record empty_service))"

definition no_metadata :: OpenChatMessageMetadata where
  "no_metadata = \<lparr>chatKind = None, chatId = None, locationKey = None, roomKey = None,
                   messageId = None, threadId = None, replyToMessageId = None,
                   apiGateway = None\<rparr>"

definition metadata_at :: "string \<Rightarrow> OpenChatMessageMetadata" where
  "metadata_at k = no_metadata\<lparr>locationKey := Some k\<rparr>"

definition options_with :: "OpenChatMessageMetadata \<Rightarrow> Options" where
  "options_with m = \<lparr>opt_openchatMetadata = Some m, opt_metadata_openchat = None,
                      opt_openchat_locationKey = None\<rparr>"

definition state_with :: "OpenChatMessageMetadata \<Rightarrow> State" where
  "state_with m = \<lparr>st_openchat_metadata = Some m, st_openchat_locationKey = None\<rparr>"

definition message_with :: "OpenChatMessageMetadata \<Rightarrow> Memory" where
  "message_with m = \<lparr>mem_metadata_openchat = Some m\<rparr>"

definition plain_message :: Memory where
  "plain_message = \<lparr>mem_metadata_openchat = None\<rparr>"

text \<open>A metadata object that names a message and a thread but carries no location key.\<close>

definition keyless_metadata :: OpenChatMessageMetadata where
  "keyless_metadata = no_metadata\<lparr>messageId := Some ''77'', threadId := Some 5\<rparr>"

text \<open>
  A hash that maps every name to the same value, and one that never collides (it returns
  the name and the namespace themselves).
\<close>

definition constant_uuid :: "string \<Rightarrow> string \<Rightarrow> unit" where
  "constant_uuid name namespace = ()"

definition faithful_uuid :: "string \<Rightarrow> string \<Rightarrow> string \<times> string" where
  "faithful_uuid name namespace = (name, namespace)"

text \<open>
  A directory service that knows two principals, the anonymous one (\<open>2vxsx-fae\<close>, the
  byte \<open>4\<close>) and the management canister (\<open>aaaaa-aa\<close>, no bytes), and answers every
  query with a summary named \<open>alice\<close> for each principal asked.
\<close>

definition sample_remote :: remote where
  "sample_remote =
     \<lparr>principal_fromText = map_of [(''2vxsx-fae'', [4]), (''aaaaa-aa'', [])],
      principal_toText = map_of [([4], ''2vxsx-fae''), ([], ''aaaaa-aa'')],
      users_msgpack = (\<lambda>q. Replied (Some (map (\<lambda>b. \<lparr>user_id = PrincipalBytes b,
                                                      stable = Some (''alice'', Some ''Alice'')\<rparr>) q)))\<rparr>"

definition anonymous_query :: "bytes list" where
  "anonymous_query = [4] # []"

definition sample_directory :: directory where
  "sample_directory = new_directory None ''aaaaa-aa''"

definition alice :: OpenChatUserProfile where
  "alice = \<lparr>up_userId = ''2vxsx-fae'', up_username = Some ''alice'',
            up_displayName = Some ''Alice''\<rparr>"

text \<open>A runtime with welcomes switched on whose text model always fails.\<close>

definition sample_runtime :: runtime where
  "sample_runtime =
     \<lparr>character_name = ''Eliza'', welcome_setting = Some ''true'',
      useModel = (\<lambda>prompt. None), send_ok = (\<lambda>client text. True),
      messageService = True, ensureConnection_ok = True\<rparr>"

definition sample_message :: OCMessageEvent where
  "sample_message =
     \<lparr>ev_deleted = False, ev_senderContext = None, ev_sender = ''2vxsx-fae'',
      ev_repliesTo = None, ev_content = TextContent (Some ''hello''), ev_messageId = 7\<rparr>"

definition chat_event :: "ChatEventInner \<Rightarrow> BotChatEvent" where
  "chat_event e = \<lparr>ce_chatId = GroupChat ''42'', ce_thread = None, ce_event = e\<rparr>"

text \<open>The directory after \<open>alice\<close> was fetched for the sample gateway and stored at time 1000.\<close>

definition cached_directory :: directory where
  "cached_directory =
     sample_directory\<lparr>cache := [(''https://gw.example:2vxsx-fae'',
                                  \<lparr>cp_profile = alice, expiresAt = 901000\<rparr>)]\<rparr>"

definition failing_remote :: remote where
  "failing_remote = sample_remote\<lparr>users_msgpack := (\<lambda>q. NotReplied)\<rparr>"

section \<open>Properties of the \<open>Map\<close> model\<close>

lemma Map_get_set_same: "Map_get (Map_set k v m) k = Some v"
  by (induction m) (auto simp: Map_get_def)

lemma Map_get_set_other: "k' \<noteq> k \<Longrightarrow> Map_get (Map_set k v m) k' = Map_get m k'"
  by (induction m) (auto simp: Map_get_def)

lemma Map_get_delete_same: "Map_get (Map_delete k m) k = None"
  by (induction m) (auto simp: Map_get_def Map_delete_def)

lemma Map_get_delete_other: "k' \<noteq> k \<Longrightarrow> Map_get (Map_delete k m) k' = Map_get m k'"
  by (induction m) (auto simp: Map_get_def Map_delete_def)

lemma Map_delete_absent: "Map_get m k = None \<Longrightarrow> Map_delete k m = m"
  by (induction m) (auto simp: Map_get_def Map_delete_def split: if_splits)

lemma Map_keys_set: "set (Map_keys (Map_set k v m)) = insert k (set (Map_keys m))"
  by (induction m) (auto simp: Map_keys_def)

lemma Map_set_distinct: "distinct (Map_keys m) \<Longrightarrow> distinct (Map_keys (Map_set k v m))"
proof (induction m)
  case Nil
  then show ?case by (simp add: Map_keys_def)
next
  case (Cons p ps)
  have "set (map fst (Map_set k v ps)) = insert k (set (map fst ps))"
    using Map_keys_set [of k v ps] by (simp add: Map_keys_def)
  with Cons show ?case by (auto simp: Map_keys_def)
qed

lemma Map_delete_distinct: "distinct (Map_keys m) \<Longrightarrow> distinct (Map_keys (Map_delete k m))"
  by (simp add: Map_keys_def Map_delete_def distinct_map_filter)

section \<open>Install and uninstall\<close>

text \<open>
  C6. For every location and record, \<open>recordInstallation\<close> followed by
  \<open>recordUninstallation\<close> on the same location leaves the Registry without that
  location's key; \<open>recordUninstallation\<close> on an absent key raises nothing and leaves
  the Registry unchanged (and, the key staying absent, so does any repetition of it), the
  info line it logs being its only trace; installing again after the uninstall puts an
  installation for that location, with the new record, at the key.
\<close>

theorem install_uninstall_registry:
  "Map_get (installations (recordUninstallation loc (recordInstallation loc r s)))
       (getLocationKey loc) = None
   \<and> \<not> Map_has (installations (recordUninstallation loc (recordInstallation loc r s)))
       (getLocationKey loc)
   \<and> (Map_get (installations s) (getLocationKey loc) = None \<longrightarrow>
        installations (recordUninstallation loc s) = installations s
        \<and> installations (recordUninstallation loc (recordUninstallation loc s)) = installations s
        \<and> recordUninstallation loc s
            = s\<lparr>logger := logger s
                          @ [Info (''Bot uninstalled from scope: '' @ getLocationKey loc)]\<rparr>)
   \<and> Map_get (installations
        (recordInstallation loc r' (recordUninstallation loc (recordInstallation loc r s))))
       (getLocationKey loc)
      = Some \<lparr>location = loc, scope = scopeFromLocation loc, inst_record = r'\<rparr>"
  by (simp add: recordInstallation_def recordUninstallation_def Let_def Map_has_def
      Map_get_set_same Map_get_delete_same Map_delete_absent)

lemma getLocationKey_inj: "getLocationKey a = getLocationKey b \<Longrightarrow> a = b"
  by (cases a; cases b) simp_all

lemma sample_installations:
  "installations sample_service =
     [(''group:42'', sample_installation (GroupChatIdentifier ''42'')),
      (''direct:u2'', sample_installation (DirectChatIdentifier ''u2'')),
      (''community:c3'', sample_installation (CommunityIdentifier ''c3''))]"
  by (simp add: sample_service_def recordInstallation_def empty_service_def Let_def
      sample_installation_def)

theorem install_uninstall_registry_witness:
  "Map_get (installations sample_service) (getLocationKey (GroupChatIdentifier ''g9'')) = None
   \<and> installations (recordUninstallation (GroupChatIdentifier ''g9'') sample_service)
       = installations sample_service
   \<and> Map_get (installations
         (recordInstallation (GroupChatIdentifier ''g9'') sample_record
            (recordUninstallation (GroupChatIdentifier ''g9'')
               (recordInstallation (GroupChatIdentifier ''g9'') sample_record sample_service))))
        ''group:g9''
       = Some (sample_installation (GroupChatIdentifier ''g9''))"
proof -
  have a: "Map_get (installations sample_service) (getLocationKey (GroupChatIdentifier ''g9'')) = None"
    by (simp add: sample_installations Map_get_def)
  note T = install_uninstall_registry
    [of "GroupChatIdentifier ''g9''" sample_record sample_service sample_record]
  show ?thesis using T a by (simp add: sample_installation_def)
qed

section \<open>Properties of the resolver\<close>

lemma extractMetadata_priority:
  "extractMetadata message state options =
     (if has_locationKey (option_metadata options) then option_metadata options
      else if has_locationKey (state_metadata state) then state_metadata state
      else if has_locationKey (mem_metadata_openchat message) then mem_metadata_openchat message
      else None)"
  by (auto simp: extractMetadata_def candidates_def pushed_def has_locationKey_def truthy_def
      split: option.splits)

lemma extractMetadata_truthy:
  "extractMetadata message state options = Some m \<Longrightarrow> truthy (locationKey m)"
  by (auto simp: extractMetadata_priority has_locationKey_def split: if_splits)

lemma by_metadata_key_extract:
  "list_all (\<lambda>c. by_metadata_key insts c = None) (candidates message state options)
   \<Longrightarrow> by_metadata_key insts (extractMetadata message state options) = None"
proof -
  assume a: "list_all (\<lambda>c. by_metadata_key insts c = None) (candidates message state options)"
  have n: "by_metadata_key insts None = None" by (simp add: by_metadata_key_def)
  have m: "by_metadata_key insts (mem_metadata_openchat message) = None"
    using a by (simp add: candidates_def)
  have o: "by_metadata_key insts (option_metadata options) = None"
    using a n by (cases "option_metadata options") (simp_all add: candidates_def pushed_def)
  have s: "by_metadata_key insts (state_metadata state) = None"
    using a n by (cases "state_metadata state") (simp_all add: candidates_def pushed_def)
  show ?thesis using n m o s by (simp add: extractMetadata_priority)
qed

lemma registry_ok_key_nonempty:
  "registry_ok m \<Longrightarrow> (k, i) \<in> set m \<Longrightarrow> k \<noteq> []"
  by (cases "location i") (auto simp: registry_ok_def list_all_iff)



lemma Map_set_list_all: "list_all P m \<Longrightarrow> P (k, v) \<Longrightarrow> list_all P (Map_set k v m)"
  by (induction m) auto

lemma recordInstallation_registry_ok:
  "registry_ok (installations s) \<Longrightarrow> registry_ok (installations (recordInstallation loc r s))"
  by (simp add: registry_ok_def recordInstallation_def Let_def Map_set_distinct Map_set_list_all)

lemma recordUninstallation_registry_ok:
  "registry_ok (installations s) \<Longrightarrow> registry_ok (installations (recordUninstallation loc s))"
  by (simp add: registry_ok_def recordUninstallation_def Let_def Map_delete_distinct)
     (simp add: Map_delete_def list_all_iff)

lemma empty_service_registry_ok: "registry_ok (installations empty_service)"
  by (simp add: registry_ok_def empty_service_def Map_keys_def)

lemma after_events_registry_ok:
  "registry_ok (installations s) \<Longrightarrow> registry_ok (installations (after_events es s))"
  by (induction es s rule: after_events.induct)
     (simp_all add: recordInstallation_registry_ok recordUninstallation_registry_ok)

lemma reachable_registry_ok: "registry_ok (installations (after_events es empty_service))"
  by (simp add: after_events_registry_ok empty_service_registry_ok)

lemma sample_registry_ok: "registry_ok (installations sample_service)"
  by (simp add: sample_service_def recordInstallation_registry_ok empty_service_registry_ok)

lemmas resolve_eval_defs =
  resolveOpenChatContext_def getInstallations_def Map_size_def Map_first_def Map_get_def
  Map_has_def extractMetadata_def candidates_def pushed_def option_metadata_def
  state_metadata_def has_locationKey_def truthy_def by_metadata_key_def by_preferred_key_def
  preferredKey_def nullish_def options_with_def state_with_def message_with_def
  plain_message_def metadata_at_def no_metadata_def Let_def

text \<open>
  C5. When none of the metadata candidates and no preferred location key matches an
  installation, \<open>resolveOpenChatContext\<close> falls back to the first installation the
  Registry holds in insertion order (after installing A and then B at different keys,
  that is A); when the Registry is empty, it returns \<open>undefined\<close>, a value and not an
  exception.
\<close>

theorem resolve_fallback_first_installation:
  "(installations svc = [] \<longrightarrow> resolveOpenChatContext (Some svc) message state options = None)
   \<and> (registry_ok (installations svc)
        \<and> list_all (\<lambda>c. by_metadata_key (installations svc) c = None)
             (candidates message state options)
        \<and> by_preferred_key (installations svc) state options = None
        \<and> installations svc = (k, inst) # rest
      \<longrightarrow> resolveOpenChatContext (Some svc) message state options =
            Some \<lparr>ctx_service = svc,
                  ctx_metadata = (case extractMetadata message state options of
                                    None \<Rightarrow> buildMetadataFromInstallation k inst None
                                  | Some m \<Rightarrow> m),
                  ctx_installation = inst,
                  ctx_client = createClientForScope (scope inst)
                     (rec_apiGateway (inst_record inst))
                     (grantedAutonomousPermissions (inst_record inst))\<rparr>)
   \<and> (getLocationKey la \<noteq> getLocationKey lb \<longrightarrow>
        map_option ctx_installation
          (resolveOpenChatContext
             (Some (recordInstallation lb rb (recordInstallation la ra empty_service)))
             plain_message None None)
        = Some \<lparr>location = la, scope = scopeFromLocation la, inst_record = ra\<rparr>)"
proof (intro conjI impI)
  assume "installations svc = []"
  then show "resolveOpenChatContext (Some svc) message state options = None"
    by (simp add: resolveOpenChatContext_def getInstallations_def Map_size_def)
next
  assume a: "registry_ok (installations svc)
        \<and> list_all (\<lambda>c. by_metadata_key (installations svc) c = None)
             (candidates message state options)
        \<and> by_preferred_key (installations svc) state options = None
        \<and> installations svc = (k, inst) # rest"
  then have k: "k \<noteq> []" using registry_ok_key_nonempty [of "installations svc" k inst] by auto
  have s1: "by_metadata_key (installations svc) (extractMetadata message state options) = None"
    using a by (intro by_metadata_key_extract) blast
  have t: "\<And>m. extractMetadata message state options = Some m \<Longrightarrow> truthy (locationKey m)"
    by (rule extractMetadata_truthy)
  show "resolveOpenChatContext (Some svc) message state options =
            Some \<lparr>ctx_service = svc,
                  ctx_metadata = (case extractMetadata message state options of
                                    None \<Rightarrow> buildMetadataFromInstallation k inst None
                                  | Some m \<Rightarrow> m),
                  ctx_installation = inst,
                  ctx_client = createClientForScope (scope inst)
                     (rec_apiGateway (inst_record inst))
                     (grantedAutonomousPermissions (inst_record inst))\<rparr>"
  proof -
    from a have i: "installations svc = (k, inst) # rest"
      and p: "by_preferred_key (installations svc) state options = None" by blast+
    show ?thesis
      using k t
      by (simp add: resolveOpenChatContext_def getInstallations_def Map_size_def Let_def
          Map_first_def i s1 [unfolded i] p [unfolded i] split: option.splits)
  qed
next
  assume ne: "getLocationKey la \<noteq> getLocationKey lb"
  have k: "getLocationKey la \<noteq> []" by (cases la) simp_all
  show "map_option ctx_installation
          (resolveOpenChatContext
             (Some (recordInstallation lb rb (recordInstallation la ra empty_service)))
             plain_message None None)
        = Some \<lparr>location = la, scope = scopeFromLocation la, inst_record = ra\<rparr>"
    using ne k
    by (simp add: resolveOpenChatContext_def getInstallations_def Map_size_def Let_def
        Map_first_def recordInstallation_def empty_service_def plain_message_def
        extractMetadata_def candidates_def pushed_def option_metadata_def state_metadata_def
        has_locationKey_def truthy_def by_metadata_key_def by_preferred_key_def preferredKey_def
        nullish_def)
qed

theorem resolve_fallback_first_installation_witness:
  "installations empty_service = []
   \<and> resolveOpenChatContext (Some empty_service) plain_message None None = None
   \<and> registry_ok (installations sample_service)
   \<and> list_all (\<lambda>c. by_metadata_key (installations sample_service) c = None)
        (candidates (message_with (metadata_at ''group:gone'')) None None)
   \<and> by_preferred_key (installations sample_service) None None = None
   \<and> map_option ctx_installation
        (resolveOpenChatContext (Some sample_service)
           (message_with (metadata_at ''group:gone'')) None None)
      = Some (sample_installation (GroupChatIdentifier ''42''))
   \<and> getLocationKey (GroupChatIdentifier ''g1'') \<noteq> getLocationKey (DirectChatIdentifier ''u2'')
   \<and> map_option ctx_installation
          (resolveOpenChatContext
             (Some (recordInstallation (DirectChatIdentifier ''u2'') sample_record
                      (recordInstallation (GroupChatIdentifier ''g1'') sample_record empty_service)))
             plain_message None None)
        = Some (sample_installation (GroupChatIdentifier ''g1''))"
proof -
  let ?msg = "message_with (metadata_at ''group:gone'')"
  have e: "installations empty_service = []" by (simp add: empty_service_def)
  have c: "list_all (\<lambda>c. by_metadata_key (installations sample_service) c = None)
             (candidates ?msg None None)"
    by (simp add: sample_installations candidates_def pushed_def option_metadata_def
        state_metadata_def message_with_def metadata_at_def no_metadata_def by_metadata_key_def
        Map_get_def)
  have p: "by_preferred_key (installations sample_service) None None = None"
    by (simp add: by_preferred_key_def preferredKey_def nullish_def)
  have n: "getLocationKey (GroupChatIdentifier ''g1'') \<noteq> getLocationKey (DirectChatIdentifier ''u2'')"
    by simp
  note T1 = resolve_fallback_first_installation
    [of empty_service plain_message None None "[]" "sample_installation (GroupChatIdentifier ''42'')"
        "[]" "GroupChatIdentifier ''g1''" "DirectChatIdentifier ''u2''" sample_record sample_record]
  note T2 = resolve_fallback_first_installation
    [of sample_service ?msg None None "''group:42''" "sample_installation (GroupChatIdentifier ''42'')"
        "[(''direct:u2'', sample_installation (DirectChatIdentifier ''u2'')),
          (''community:c3'', sample_installation (CommunityIdentifier ''c3''))]"
        "GroupChatIdentifier ''g1''" "DirectChatIdentifier ''u2''" sample_record sample_record]
  have r1: "resolveOpenChatContext (Some empty_service) plain_message None None = None"
    using T1 e by blast
  have r2: "map_option ctx_installation (resolveOpenChatContext (Some sample_service) ?msg None None)
      = Some (sample_installation (GroupChatIdentifier ''42''))"
    using T2 sample_registry_ok c p sample_installations by simp
  have r3: "map_option ctx_installation
          (resolveOpenChatContext
             (Some (recordInstallation (DirectChatIdentifier ''u2'') sample_record
                      (recordInstallation (GroupChatIdentifier ''g1'') sample_record empty_service)))
             plain_message None None)
        = Some (sample_installation (GroupChatIdentifier ''g1''))"
    using T2 n by (simp add: sample_installation_def)
  show ?thesis using e r1 sample_registry_ok c p r2 n r3 by blast
qed





text \<open>
  The branch of \<open>resolveOpenChatContext\<close> that merges a found metadata object lacking a
  location key is never entered: \<open>extractMetadata\<close> returns only candidates whose
  location key is non-empty (\<open>extractMetadata_truthy\<close>).
\<close>

lemma resolve_never_merges:
  "resolveOpenChatContext (Some svc) message state options = Some ctx \<Longrightarrow>
     (case extractMetadata message state options of
        None \<Rightarrow> \<exists>k. ctx_metadata ctx = buildMetadataFromInstallation k (ctx_installation ctx) None
      | Some m \<Rightarrow> ctx_metadata ctx = m)"
  using extractMetadata_truthy [of message state options]
  by (auto simp: resolveOpenChatContext_def Let_def split: if_splits option.splits) blast+

text \<open>
  C3, evaluated. The options carry a metadata object with message id \<open>77\<close> and thread
  \<open>5\<close> but no location key. The resolver returns the metadata synthesized from the
  first installation alone (empty message id, no thread, room key \<open>42\<close>); the merge
  written in the source would have given message id \<open>77\<close>, thread \<open>5\<close> and room key
  \<open>42:5\<close>.
\<close>

theorem keyless_metadata_not_merged:
  "map_option ctx_metadata
     (resolveOpenChatContext (Some sample_service) plain_message None
        (Some (options_with keyless_metadata)))
     = Some \<lparr>chatKind = Some Group, chatId = Some ''42'', locationKey = Some ''group:42'',
             roomKey = Some ''42'', messageId = Some [], threadId = None,
             replyToMessageId = None, apiGateway = Some ''https://gw.example''\<rparr>
   \<and> (buildMetadataFromInstallation ''group:42''
         (sample_installation (GroupChatIdentifier ''42'')) (Some keyless_metadata))
       \<lparr>locationKey := Some ''group:42''\<rparr>
     = \<lparr>chatKind = Some Group, chatId = Some ''42'', locationKey = Some ''group:42'',
        roomKey = Some ''42:5'', messageId = Some ''77'', threadId = Some 5,
        replyToMessageId = None, apiGateway = Some ''https://gw.example''\<rparr>"
  by (simp add: sample_installations resolve_eval_defs keyless_metadata_def
      buildMetadataFromInstallation_def sample_installation_def sample_record_def
      getChatKindFromLocation_def getRoomKeyFromLocation_def string_of_nat.simps digit_char_def)

section \<open>Properties of the rejection callback\<close>

text \<open>
  C2. When the rejection callback receives a rejection whose reason text is exactly
  \<open>Invalid scope\<close> it returns without raising; for a rejection with any other reason text
  \<open>t\<close> it raises an error whose message is \<open>t\<close> (an empty message when the reason has
  no text).
\<close>

theorem rejection_filtering:
  "(errorMessage stringify e = Some ''Invalid scope'' \<longrightarrow>
      notify_rejected stringify e =
        Inr [Debug ''[OpenChat] Ignoring notification without actionable scope (likely lifecycle event)''])
   \<and> (errorMessage stringify e = Some t \<and> t \<noteq> ''Invalid scope'' \<longrightarrow>
        (\<exists>err. notify_rejected stringify e = Inl err \<and> error_message err = t))
   \<and> (errorMessage stringify e = None \<longrightarrow> notify_rejected stringify e = Inl (JsError []))"
  by (cases e) (auto simp: notify_rejected_def errorMessage_def Let_def)

theorem rejection_filtering_witness:
  "errorMessage (\<lambda>j::unit. None) (RejectString ''Invalid scope'') = Some ''Invalid scope''
   \<and> notify_rejected (\<lambda>j::unit. None) (RejectString ''Invalid scope'') =
        Inr [Debug ''[OpenChat] Ignoring notification without actionable scope (likely lifecycle event)'']
   \<and> errorMessage (\<lambda>j::unit. None) (RejectError (JsError ''invalid scope'')) = Some ''invalid scope''
   \<and> ''invalid scope'' \<noteq> ''Invalid scope''
   \<and> notify_rejected (\<lambda>j::unit. None) (RejectError (JsError ''invalid scope''))
       = Inl (JsError ''invalid scope'')
   \<and> errorMessage (\<lambda>j::unit. None) (RejectOther ()) = None
   \<and> notify_rejected (\<lambda>j::unit. None) (RejectOther ()) = Inl (JsError [])"
  using rejection_filtering [of "\<lambda>j::unit. None" "RejectString ''Invalid scope''" "[]"]
    rejection_filtering [of "\<lambda>j::unit. None" "RejectError (JsError ''invalid scope'')" "''invalid scope''"]
    rejection_filtering [of "\<lambda>j::unit. None" "RejectOther ()" "[]"]
  by (simp add: errorMessage_def) (metis error_message.elims)

section \<open>Properties of the identity mapper\<close>

lemma hyphen_free_split:
  "CHR ''-'' \<notin> set a \<Longrightarrow> CHR ''-'' \<notin> set b \<Longrightarrow> a @ CHR ''-'' # x = b @ CHR ''-'' # y
   \<Longrightarrow> a = b \<and> x = y"
proof (induction a arbitrary: b)
  case Nil
  then show ?case by (cases b) auto
next
  case (Cons c a)
  then show ?case by (cases b) auto
qed

lemma room_name_inj:
  "CHR ''-'' \<notin> set k1 \<Longrightarrow> CHR ''-'' \<notin> set k2 \<Longrightarrow> room_name k1 i1 = room_name k2 i2
   \<Longrightarrow> k1 = k2 \<and> i1 = i2"
  using hyphen_free_split [of k1 k2 i1 i2] by (simp add: room_name_def)

text \<open>
  C4, as the code has it. The three mappers are functions of their inputs: equal inputs,
  equal outputs. \<open>makeRoomUuid\<close> hashes the name \<open>openchat-room-<kind>-<id>\<close>; for chat
  kinds without a hyphen (such as \<open>direct\<close>, \<open>group\<close> and \<open>channel\<close>) unequal pairs have
  unequal names, so two of them get the same room id only if the UUID hash itself gives
  one value to two different names.
\<close>

theorem room_uuid_collisions:
  "(k1 = k2 \<and> i1 = i2 \<longrightarrow>
      makeRoomUuid uuidv5 k1 i1 = makeRoomUuid uuidv5 k2 i2
      \<and> makeUserUuid uuidv5 i1 = makeUserUuid uuidv5 i2
      \<and> makeMessageUuid uuidv5 i1 = makeMessageUuid uuidv5 i2)
   \<and> (CHR ''-'' \<notin> set k1 \<and> CHR ''-'' \<notin> set k2 \<and> (k1, i1) \<noteq> (k2, i2) \<longrightarrow>
        room_name k1 i1 \<noteq> room_name k2 i2)
   \<and> (CHR ''-'' \<notin> set k1 \<and> CHR ''-'' \<notin> set k2 \<and> (k1, i1) \<noteq> (k2, i2)
        \<and> makeRoomUuid uuidv5 k1 i1 = makeRoomUuid uuidv5 k2 i2 \<longrightarrow>
        (\<exists>a b. a \<noteq> b \<and> uuidv5 a OPENCHAT_UUID_NAMESPACE = uuidv5 b OPENCHAT_UUID_NAMESPACE))"
proof -
  have inj: "CHR ''-'' \<notin> set k1 \<and> CHR ''-'' \<notin> set k2 \<and> (k1, i1) \<noteq> (k2, i2) \<longrightarrow>
        room_name k1 i1 \<noteq> room_name k2 i2"
    using room_name_inj [of k1 k2 i1 i2] by auto
  then show ?thesis unfolding makeRoomUuid_def by blast
qed

theorem room_uuid_collisions_witness:
  "CHR ''-'' \<notin> set ''group'' \<and> (''group'', ''g1'') \<noteq> (''group'', ''g2'')
   \<and> room_name ''group'' ''g1'' \<noteq> room_name ''group'' ''g2''
   \<and> makeRoomUuid constant_uuid ''group'' ''g1'' = makeRoomUuid constant_uuid ''group'' ''g2''
   \<and> (\<exists>a b. a \<noteq> b \<and> constant_uuid a OPENCHAT_UUID_NAMESPACE
                      = constant_uuid b OPENCHAT_UUID_NAMESPACE)
   \<and> makeRoomUuid faithful_uuid ''group'' ''g1'' = makeRoomUuid faithful_uuid ''group'' ''g1''"
  using room_uuid_collisions [of "''group''" "''group''" "''g1''" "''g2''" constant_uuid]
    room_uuid_collisions [of "''group''" "''group''" "''g1''" "''g1''" faithful_uuid]
  by simp

text \<open>
  C4 as stated fails: the pairs \<open>(group-a, b)\<close> and \<open>(group, a-b)\<close> are unequal and
  have the same name, hence the same room id under every hash, here under one that never
  collides.
\<close>

theorem room_uuid_hyphen_collision:
  "(''group-a'', ''b'') \<noteq> (''group'', ''a-b'')
   \<and> room_name ''group-a'' ''b'' = room_name ''group'' ''a-b''
   \<and> makeRoomUuid faithful_uuid ''group-a'' ''b'' = makeRoomUuid faithful_uuid ''group'' ''a-b''"
  by (simp add: makeRoomUuid_def room_name_def)

lemma room_uuid_hyphen_collision_any:
  "makeRoomUuid uuidv5 ''group-a'' ''b'' = makeRoomUuid uuidv5 ''group'' ''a-b''"
  by (simp add: makeRoomUuid_def room_name_def)

text \<open>
  A UUID has 128 bits, so for any hash and any kind some two identifiers share a room id.
\<close>

lemma room_uuid_pigeonhole:
  fixes uuidv5 :: "string \<Rightarrow> string \<Rightarrow> 128 word"
  shows "\<exists>i1 i2. i1 \<noteq> i2 \<and> makeRoomUuid uuidv5 k i1 = makeRoomUuid uuidv5 k i2"
proof (rule ccontr)
  assume "\<not> ?thesis"
  then have "inj (\<lambda>i. makeRoomUuid uuidv5 k i)" by (auto simp: inj_on_def)
  moreover have "finite (range (\<lambda>i. makeRoomUuid uuidv5 k i))" by (rule finite_subset [OF subset_UNIV]) simp
  ultimately have "finite (UNIV :: string set)" by (rule finite_imageD [rotated])
  then show False using infinite_UNIV_listI by blast
qed

section \<open>Properties of the message manager\<close>

lemma placeholder_empty_iff:
  "buildPlaceholderForContent e = [] \<longleftrightarrow> (\<exists>t. ev_content e = TextContent t \<and> sanitizeText t = [])"
  by (cases "ev_content e") simp_all

text \<open>
  C10. \<open>handleMessageEvent\<close> forwards nothing to the message service when the event's inner
  kind is not \<open>message\<close>, when the message is deleted, when the sender context is a bot,
  or when the derived text is empty: no connection is ensured, no memory is built and
  handed over, so no response can be sent. In the first three cases nothing happens at
  all, in the last only a debug line is logged.
\<close>

theorem message_event_filters:
  "((\<forall>e. ce_event chatEvent \<noteq> MessageEvent e) \<longrightarrow>
       handleMessageEvent uuidv5 rt client chatEvent metadata = [])
   \<and> (ce_event chatEvent = MessageEvent e \<and> ev_deleted e \<longrightarrow>
       handleMessageEvent uuidv5 rt client chatEvent metadata = [])
   \<and> (ce_event chatEvent = MessageEvent e \<and> ev_senderContext e = Some ''bot'' \<longrightarrow>
       handleMessageEvent uuidv5 rt client chatEvent metadata = [])
   \<and> (ce_event chatEvent = MessageEvent e \<and> buildPlaceholderForContent e = [] \<longrightarrow>
       forwarded (handleMessageEvent uuidv5 rt client chatEvent metadata) = [])"
  by (cases "ce_event chatEvent")
     (auto simp: handleMessageEvent_def forwarded_def Let_def simp del: buildPlaceholderForContent.simps)

theorem message_event_filters_witness:
  "(\<forall>e. ce_event (chat_event (OtherEvent ''reaction'')) \<noteq> MessageEvent e)
   \<and> handleMessageEvent faithful_uuid sample_runtime (EventClient ''c'')
        (chat_event (OtherEvent ''reaction'')) (metadata_at ''group:42'') = []
   \<and> ev_deleted (sample_message\<lparr>ev_deleted := True\<rparr>)
   \<and> handleMessageEvent faithful_uuid sample_runtime (EventClient ''c'')
        (chat_event (MessageEvent (sample_message\<lparr>ev_deleted := True\<rparr>)))
        (metadata_at ''group:42'') = []
   \<and> ev_senderContext (sample_message\<lparr>ev_senderContext := Some ''bot''\<rparr>) = Some ''bot''
   \<and> handleMessageEvent faithful_uuid sample_runtime (EventClient ''c'')
        (chat_event (MessageEvent (sample_message\<lparr>ev_senderContext := Some ''bot''\<rparr>)))
        (metadata_at ''group:42'') = []
   \<and> buildPlaceholderForContent (sample_message\<lparr>ev_content := TextContent (Some ''  '')\<rparr>) = []
   \<and> forwarded (handleMessageEvent faithful_uuid sample_runtime (EventClient ''c'')
        (chat_event (MessageEvent (sample_message\<lparr>ev_content := TextContent (Some ''  '')\<rparr>)))
        (metadata_at ''group:42'')) = []"
proof -
  let ?h = "\<lambda>e. handleMessageEvent faithful_uuid sample_runtime (EventClient ''c'')
        (chat_event e) (metadata_at ''group:42'')"
  have a1: "\<forall>e. ce_event (chat_event (OtherEvent ''reaction'')) \<noteq> MessageEvent e"
    by (simp add: chat_event_def)
  have a2: "ev_deleted (sample_message\<lparr>ev_deleted := True\<rparr>)" by simp
  have a3: "ev_senderContext (sample_message\<lparr>ev_senderContext := Some ''bot''\<rparr>) = Some ''bot''"
    by simp
  have a4: "buildPlaceholderForContent (sample_message\<lparr>ev_content := TextContent (Some ''  '')\<rparr>) = []"
    by (simp add: sanitizeText_def trim_def is_space_def)
  have c: "\<And>e. ce_event (chat_event e) = e" by (simp add: chat_event_def)
  note T = message_event_filters [of "chat_event x" faithful_uuid sample_runtime "EventClient ''c''"
      "metadata_at ''group:42''" y for x y]
  have r1: "?h (OtherEvent ''reaction'') = []" using T [of "OtherEvent ''reaction''"] a1 by blast
  have r2: "?h (MessageEvent (sample_message\<lparr>ev_deleted := True\<rparr>)) = []"
    using T [of "MessageEvent (sample_message\<lparr>ev_deleted := True\<rparr>)"
        "sample_message\<lparr>ev_deleted := True\<rparr>"] a2 c by blast
  have r3: "?h (MessageEvent (sample_message\<lparr>ev_senderContext := Some ''bot''\<rparr>)) = []"
    using T [of "MessageEvent (sample_message\<lparr>ev_senderContext := Some ''bot''\<rparr>)"
        "sample_message\<lparr>ev_senderContext := Some ''bot''\<rparr>"] a3 c by blast
  have r4: "forwarded (?h (MessageEvent (sample_message\<lparr>ev_content := TextContent (Some ''  '')\<rparr>))) = []"
    using T [of "MessageEvent (sample_message\<lparr>ev_content := TextContent (Some ''  '')\<rparr>)"
        "sample_message\<lparr>ev_content := TextContent (Some ''  '')\<rparr>"] a4 c by blast
  show ?thesis using a1 a2 a3 a4 r1 r2 r3 r4 by blast
qed

text \<open>Any other message is forwarded when the message service is there.\<close>

lemma message_event_forwarded:
  "ce_event chatEvent = MessageEvent e \<Longrightarrow> \<not> ev_deleted e \<Longrightarrow> ev_senderContext e \<noteq> Some ''bot''
   \<Longrightarrow> buildPlaceholderForContent e \<noteq> [] \<Longrightarrow> messageService rt
   \<Longrightarrow> \<exists>memory. HandleMessage memory client
         \<in> set (handleMessageEvent uuidv5 rt client chatEvent metadata)
       \<and> im_text memory = buildPlaceholderForContent e"
  by (auto simp: handleMessageEvent_def Let_def simp del: buildPlaceholderForContent.simps)

section \<open>Properties of the user directory\<close>

lemma map_filter_all_None:
  "list_all (\<lambda>x. f x = None) xs \<Longrightarrow> List.map_filter f xs = []"
  by (induction xs) (auto simp: List.map_filter_simps)

lemma encoded_ids:
  "List.map_filter fst (map (principalToBytes r) ids) = List.map_filter (principal_fromText r) ids"
  by (induction ids) (auto simp: List.map_filter_simps principalToBytes_def split: option.splits)

lemma encoding_warnings:
  "concat (map snd (map (principalToBytes r) ids))
     = map invalid_principal_warning (filter (\<lambda>i. principal_fromText r i = None) ids)"
  by (induction ids) (auto simp: principalToBytes_def split: option.splits)

lemma map_filter_filter_Some:
  "List.map_filter f (filter (\<lambda>i. f i \<noteq> None) xs) = List.map_filter f xs"
  by (induction xs) (auto simp: List.map_filter_simps split: option.splits)

lemma lookupProfiles_unfold:
  "lookupProfiles r d ids =
     (let warnings = map invalid_principal_warning (filter (\<lambda>i. principal_fromText r i = None) ids);
          normalizedIds = List.map_filter (principal_fromText r) ids
      in if normalizedIds = [] then (Inr [], warnings)
         else
           (case principal_fromText r (storageIndexCanisterId d) of
              None \<Rightarrow> (Inl ''invalid canister principal'', warnings)
            | Some canister \<Rightarrow>
                (case users_msgpack r normalizedIds of
                   QueryThrew e \<Rightarrow> (Inl e, warnings @ [RemoteQuery normalizedIds])
                 | NotReplied \<Rightarrow>
                     (Inl (''User directory query was rejected for '' @ storageIndexCanisterId d),
                      warnings @ [RemoteQuery normalizedIds])
                 | Replied None \<Rightarrow> (Inr [], warnings @ [RemoteQuery normalizedIds])
                 | Replied (Some users) \<Rightarrow>
                     (let mapped = map (mapSummary r) users
                      in (Inr (List.map_filter fst mapped),
                          warnings @ [RemoteQuery normalizedIds] @ concat (map snd mapped))))))"
  unfolding lookupProfiles_def Let_def encoded_ids encoding_warnings by (rule refl)

lemma remote_queries_simps:
  "remote_queries [] = []"
  "remote_queries (Logged l # es) = remote_queries es"
  "remote_queries (SendText c t # es) = remote_queries es"
  "remote_queries (RemoteQuery q # es) = q # remote_queries es"
  "remote_queries (xs @ ys) = remote_queries xs @ remote_queries ys"
  by (simp_all add: remote_queries_def)

lemma remote_queries_warnings: "remote_queries (map invalid_principal_warning ids) = []"
  by (induction ids) (simp_all add: remote_queries_simps invalid_principal_warning_def)

lemma mapSummary_no_query: "remote_queries (snd (mapSummary r u)) = []"
  by (auto simp: mapSummary_def principalToText_def remote_queries_simps
      split: RawPrincipal.splits option.splits prod.splits)

lemma mapSummaries_no_query: "remote_queries (concat (map (snd \<circ> mapSummary r) us)) = []"
  by (induction us) (simp_all add: remote_queries_simps mapSummary_no_query)

text \<open>
  C9. \<open>lookupProfiles\<close> drops each input id that fails principal encoding, with a warning
  for it, instead of throwing: such ids have no influence on the result, and the one query
  that may be issued carries exactly the encodings of the other ids. When no input id
  encodes, the empty list included, it returns the empty list and issues no query.
\<close>

theorem lookup_drops_invalid_ids:
  "(list_all (\<lambda>i. principal_fromText r i = None) ids \<longrightarrow>
      lookupProfiles r d ids = (Inr [], map invalid_principal_warning ids))
   \<and> lookupProfiles r d [] = (Inr [], [])
   \<and> (remote_queries (snd (lookupProfiles r d ids)) = []
       \<or> remote_queries (snd (lookupProfiles r d ids))
          = [List.map_filter (principal_fromText r) ids])
   \<and> (i \<in> set ids \<and> principal_fromText r i = None \<longrightarrow>
        invalid_principal_warning i \<in> set (snd (lookupProfiles r d ids)))
   \<and> fst (lookupProfiles r d ids)
       = fst (lookupProfiles r d (filter (\<lambda>i. principal_fromText r i \<noteq> None) ids))"
proof (intro conjI impI)
  assume a: "list_all (\<lambda>i. principal_fromText r i = None) ids"
  then have "filter (\<lambda>i. principal_fromText r i = None) ids = ids"
    by (simp add: list_all_iff)
  with a show "lookupProfiles r d ids = (Inr [], map invalid_principal_warning ids)"
    by (simp add: lookupProfiles_unfold map_filter_all_None)
next
  show "lookupProfiles r d [] = (Inr [], [])"
    by (simp add: lookupProfiles_unfold List.map_filter_simps)
next
  show "remote_queries (snd (lookupProfiles r d ids)) = []
       \<or> remote_queries (snd (lookupProfiles r d ids))
          = [List.map_filter (principal_fromText r) ids]"
    by (simp add: lookupProfiles_unfold Let_def remote_queries_simps remote_queries_warnings
        mapSummaries_no_query split: option.splits query_outcome.splits)
next
  assume "i \<in> set ids \<and> principal_fromText r i = None"
  then have "invalid_principal_warning i
      \<in> set (map invalid_principal_warning (filter (\<lambda>i. principal_fromText r i = None) ids))"
    by auto
  then show "invalid_principal_warning i \<in> set (snd (lookupProfiles r d ids))"
    by (auto simp: lookupProfiles_unfold Let_def split: option.splits query_outcome.splits)
next
  have eq: "List.map_filter (principal_fromText r)
              (filter (\<lambda>i. principal_fromText r i \<noteq> None) ids)
            = List.map_filter (principal_fromText r) ids"
    by (rule map_filter_filter_Some)
  show "fst (lookupProfiles r d ids)
       = fst (lookupProfiles r d (filter (\<lambda>i. principal_fromText r i \<noteq> None) ids))"
    unfolding lookupProfiles_unfold Let_def eq
    by (simp split: option.splits query_outcome.splits)
qed

lemma getProfile_guard:
  "scope_key d gw = [] \<or> uid = [] \<Longrightarrow> getProfile r d gw uid now now' = (None, d, [])"
  by (auto simp: getProfile_def Let_def)

lemma getProfile_hit:
  "scope_key d gw \<noteq> [] \<Longrightarrow> uid \<noteq> [] \<Longrightarrow> Map_get (cache d) (cacheKey (scope_key d gw) uid) = Some c
   \<Longrightarrow> now < expiresAt c \<Longrightarrow> getProfile r d gw uid now now' = (Some (cp_profile c), d, [])"
  by (simp add: getProfile_def Let_def)

lemma getProfile_miss:
  "scope_key d gw \<noteq> [] \<Longrightarrow> uid \<noteq> []
   \<Longrightarrow> (\<And>c. Map_get (cache d) (cacheKey (scope_key d gw) uid) = Some c \<Longrightarrow> expiresAt c \<le> now)
   \<Longrightarrow> getProfile r d gw uid now now' = profile_lookup r d gw uid now'"
  by (cases "Map_get (cache d) (cacheKey (scope_key d gw) uid)")
     (auto simp: getProfile_def Let_def)

lemma profile_lookup_Some:
  "profile_lookup r d gw uid t0 = (Some p, d', effs) \<Longrightarrow>
     d' = d\<lparr>cache := Map_set (cacheKey (scope_key d gw) uid)
                        \<lparr>cp_profile = p, expiresAt = t0 + cacheTtlMs d\<rparr> (cache d)\<rparr>"
  by (auto simp: profile_lookup_def split: prod.splits sum.splits list.splits)

lemma sample_lookup:
  "storageIndexCanisterId d = ''aaaaa-aa'' \<Longrightarrow>
     lookupProfiles sample_remote d [''2vxsx-fae''] = (Inr [alice], [RemoteQuery anonymous_query])"
  by (simp add: lookupProfiles_def principalToBytes_def sample_remote_def Let_def
      List.map_filter_simps mapSummary_def principalToText_def alice_def anonymous_query_def)

lemma failing_lookup:
  "storageIndexCanisterId d = ''aaaaa-aa'' \<Longrightarrow>
     lookupProfiles failing_remote d [''2vxsx-fae'']
       = (Inl ''User directory query was rejected for aaaaa-aa'', [RemoteQuery anonymous_query])"
  by (simp add: lookupProfiles_def principalToBytes_def sample_remote_def failing_remote_def
      Let_def List.map_filter_simps anonymous_query_def)

lemma sample_canister:
  "storageIndexCanisterId sample_directory = ''aaaaa-aa''"
  "storageIndexCanisterId cached_directory = ''aaaaa-aa''"
  by (simp_all add: sample_directory_def cached_directory_def new_directory_def)

theorem lookup_drops_invalid_ids_witness:
  "list_all (\<lambda>i. principal_fromText sample_remote i = None) [''nobody'', []]
   \<and> lookupProfiles sample_remote sample_directory [''nobody'', []]
       = (Inr [], [invalid_principal_warning ''nobody'', invalid_principal_warning []])
   \<and> ''nobody'' \<in> set [''nobody'', ''2vxsx-fae'']
   \<and> principal_fromText sample_remote ''nobody'' = None
   \<and> invalid_principal_warning ''nobody''
       \<in> set (snd (lookupProfiles sample_remote sample_directory [''nobody'', ''2vxsx-fae'']))
   \<and> remote_queries (snd (lookupProfiles sample_remote sample_directory [''nobody'', ''2vxsx-fae'']))
       = [anonymous_query]
   \<and> fst (lookupProfiles sample_remote sample_directory [''nobody'', ''2vxsx-fae''])
       = Inr [alice]"
proof -
  have a: "list_all (\<lambda>i. principal_fromText sample_remote i = None) [''nobody'', []]"
    and b: "principal_fromText sample_remote ''nobody'' = None"
    by (simp_all add: sample_remote_def)
  have f: "filter (\<lambda>i. principal_fromText sample_remote i \<noteq> None) [''nobody'', ''2vxsx-fae'']
             = [''2vxsx-fae'']"
    by (simp add: sample_remote_def)
  have mf: "List.map_filter (principal_fromText sample_remote) [''nobody'', ''2vxsx-fae''] = anonymous_query"
    by (simp add: sample_remote_def List.map_filter_simps anonymous_query_def)
  have q: "remote_queries (snd (lookupProfiles sample_remote sample_directory [''nobody'', ''2vxsx-fae'']))
       = [anonymous_query]"
    by (simp add: lookupProfiles_unfold mf sample_canister)
       (simp add: sample_remote_def remote_queries_simps remote_queries_warnings
          mapSummary_def principalToText_def Let_def invalid_principal_warning_def
          sample_canister anonymous_query_def List.map_filter_simps)
  note A = lookup_drops_invalid_ids
    [where r = sample_remote and d = sample_directory and ids = "[''nobody'', []]"
       and i = "''nobody''"]
  note B = lookup_drops_invalid_ids
    [where r = sample_remote and d = sample_directory and ids = "[''nobody'', ''2vxsx-fae'']"
       and i = "''nobody''"]
  have r1: "lookupProfiles sample_remote sample_directory [''nobody'', []]
       = (Inr [], [invalid_principal_warning ''nobody'', invalid_principal_warning []])"
    using A a by simp
  have r2: "invalid_principal_warning ''nobody''
       \<in> set (snd (lookupProfiles sample_remote sample_directory [''nobody'', ''2vxsx-fae'']))"
    using B b by simp
  have r3: "fst (lookupProfiles sample_remote sample_directory [''nobody'', ''2vxsx-fae''])
       = Inr [alice]"
    using B f by (simp add: sample_lookup sample_canister)
  show ?thesis using a r1 b r2 q r3 by simp
qed

lemma profile_lookup_explicit:
  "lookupProfiles r d [uid] = (res, leffs) \<Longrightarrow>
     profile_lookup r d gw uid now' =
       (case res of Inr (q # qs) \<Rightarrow> Some q | _ \<Rightarrow> None,
        case res of
          Inr (q # qs) \<Rightarrow>
            d\<lparr>cache := Map_set (cacheKey (scope_key d gw) uid)
                         \<lparr>cp_profile = q, expiresAt = now' + cacheTtlMs d\<rparr> (cache d)\<rparr>
        | _ \<Rightarrow> d,
        leffs @ (case res of Inl e \<Rightarrow> [resolve_failed_warning e] | Inr qs \<Rightarrow> []))"
  by (simp add: profile_lookup_def split: sum.splits list.splits)

lemma single_lookup_query:
  "principal_fromText r uid = Some b \<Longrightarrow> principal_fromText r (storageIndexCanisterId d) = Some cb
   \<Longrightarrow> remote_queries (snd (lookupProfiles r d [uid])) = [b] # []"
  by (simp add: lookupProfiles_unfold Let_def List.map_filter_simps remote_queries_simps
      mapSummaries_no_query split: query_outcome.splits option.splits)

lemma profile_lookup_queries:
  "remote_queries (snd (snd (profile_lookup r d gw uid now')))
     = remote_queries (snd (lookupProfiles r d [uid]))"
  by (cases "lookupProfiles r d [uid]")
     (simp add: profile_lookup_def remote_queries_simps resolve_failed_warning_def
        split: sum.splits list.splits)

text \<open>
  C7, as the code has it. When the scope key (the gateway, or the storage index canister
  id when no gateway is given) or the user id is empty, \<open>getProfile\<close> returns \<open>null\<close> at
  once. Otherwise it returns the cached profile without any lookup whenever the entry at
  \<open><scope key>:<userId>\<close> has \<open>expiresAt\<close> strictly in the future. Else it calls
  \<open>lookupProfiles([userId])\<close>, whose effects are its own: the first profile of the result
  is returned and stored at that key with \<open>expiresAt = now + ttl\<close> (15 minutes when not
  configured), an empty result gives \<open>null\<close> and stores nothing, and a thrown error gives
  \<open>null\<close> and a warning and stores nothing; the query sent carries the encoding of the
  user id alone when the id and the canister id encode. So a profile fetched and stored at
  \<open>t0\<close> with ttl \<open>T\<close> is in the cache with \<open>expiresAt = t0 + T\<close>, is served from it at
  \<open>t0 + T - 1\<close> and is looked up again at \<open>t0 + T + 1\<close>.
\<close>

theorem getProfile_cache_ttl:
  "(scope_key d gw = [] \<or> uid = [] \<longrightarrow> getProfile r d gw uid now now' = (None, d, []))
   \<and> (scope_key d gw \<noteq> [] \<and> uid \<noteq> []
        \<and> Map_get (cache d) (cacheKey (scope_key d gw) uid) = Some c \<and> now < expiresAt c
      \<longrightarrow> getProfile r d gw uid now now' = (Some (cp_profile c), d, []))
   \<and> (scope_key d gw \<noteq> [] \<and> uid \<noteq> []
        \<and> (\<forall>c. Map_get (cache d) (cacheKey (scope_key d gw) uid) = Some c \<longrightarrow> expiresAt c \<le> now)
        \<and> lookupProfiles r d [uid] = (res, leffs)
      \<longrightarrow> getProfile r d gw uid now now' =
            (case res of Inr (q # qs) \<Rightarrow> Some q | _ \<Rightarrow> None,
             case res of
               Inr (q # qs) \<Rightarrow>
                 d\<lparr>cache := Map_set (cacheKey (scope_key d gw) uid)
                              \<lparr>cp_profile = q, expiresAt = now' + cacheTtlMs d\<rparr> (cache d)\<rparr>
             | _ \<Rightarrow> d,
             leffs @ (case res of Inl e \<Rightarrow> [resolve_failed_warning e] | Inr qs \<Rightarrow> [])))
   \<and> (scope_key d gw \<noteq> [] \<and> uid \<noteq> []
        \<and> (\<forall>c. Map_get (cache d) (cacheKey (scope_key d gw) uid) = Some c \<longrightarrow> expiresAt c \<le> now)
        \<and> principal_fromText r uid = Some b
        \<and> principal_fromText r (storageIndexCanisterId d) = Some cb
      \<longrightarrow> remote_queries (snd (snd (getProfile r d gw uid now now'))) = [b] # [])
   \<and> (scope_key d gw \<noteq> [] \<and> uid \<noteq> []
        \<and> (\<forall>c. Map_get (cache d) (cacheKey (scope_key d gw) uid) = Some c \<longrightarrow> expiresAt c \<le> now)
        \<and> lookupProfiles r d [uid] = (Inl e, leffs)
      \<longrightarrow> getProfile r d gw uid now now' = (None, d, leffs @ [resolve_failed_warning e]))
   \<and> cacheTtlMs (new_directory None canister) = 15 * 60 * 1000
   \<and> (scope_key d gw \<noteq> [] \<and> uid \<noteq> []
        \<and> (\<forall>c. Map_get (cache d) (cacheKey (scope_key d gw) uid) = Some c \<longrightarrow> expiresAt c \<le> now)
        \<and> getProfile r d gw uid now t0 = (Some p, d', effs)
        \<and> lookupProfiles r2 d' [uid] = (res2, leffs2)
      \<longrightarrow> Map_get (cache d') (cacheKey (scope_key d gw) uid)
            = Some \<lparr>cp_profile = p, expiresAt = t0 + cacheTtlMs d\<rparr>
          \<and> getProfile r2 d' gw uid (t0 + cacheTtlMs d - 1) later = (Some p, d', [])
          \<and> getProfile r2 d' gw uid (t0 + cacheTtlMs d + 1) later =
              (case res2 of Inr (q # qs) \<Rightarrow> Some q | _ \<Rightarrow> None,
               case res2 of
                 Inr (q # qs) \<Rightarrow>
                   d'\<lparr>cache := Map_set (cacheKey (scope_key d gw) uid)
                                 \<lparr>cp_profile = q, expiresAt = later + cacheTtlMs d\<rparr> (cache d')\<rparr>
               | _ \<Rightarrow> d',
               leffs2 @ (case res2 of Inl e \<Rightarrow> [resolve_failed_warning e] | Inr qs \<Rightarrow> [])))"
proof (intro conjI impI)
  show "cacheTtlMs (new_directory None canister) = 15 * 60 * 1000"
    by (simp add: new_directory_def DEFAULT_CACHE_TTL_MS_def)
next
  assume a: "scope_key d gw \<noteq> [] \<and> uid \<noteq> []
        \<and> (\<forall>c. Map_get (cache d) (cacheKey (scope_key d gw) uid) = Some c \<longrightarrow> expiresAt c \<le> now)
        \<and> lookupProfiles r d [uid] = (res, leffs)"
  then have "getProfile r d gw uid now now' = profile_lookup r d gw uid now'"
    using getProfile_miss [of d gw uid now r now'] by auto
  with a show "getProfile r d gw uid now now' =
            (case res of Inr (q # qs) \<Rightarrow> Some q | _ \<Rightarrow> None,
             case res of
               Inr (q # qs) \<Rightarrow>
                 d\<lparr>cache := Map_set (cacheKey (scope_key d gw) uid)
                              \<lparr>cp_profile = q, expiresAt = now' + cacheTtlMs d\<rparr> (cache d)\<rparr>
             | _ \<Rightarrow> d,
             leffs @ (case res of Inl e \<Rightarrow> [resolve_failed_warning e] | Inr qs \<Rightarrow> []))"
    using profile_lookup_explicit [of r d uid res leffs gw now'] by simp
next
  assume a: "scope_key d gw \<noteq> [] \<and> uid \<noteq> []
        \<and> (\<forall>c. Map_get (cache d) (cacheKey (scope_key d gw) uid) = Some c \<longrightarrow> expiresAt c \<le> now)
        \<and> principal_fromText r uid = Some b
        \<and> principal_fromText r (storageIndexCanisterId d) = Some cb"
  then have "getProfile r d gw uid now now' = profile_lookup r d gw uid now'"
    using getProfile_miss [of d gw uid now r now'] by auto
  with a show "remote_queries (snd (snd (getProfile r d gw uid now now'))) = [b] # []"
    using single_lookup_query [of r uid b d cb] by (simp add: profile_lookup_queries)
next
  assume a: "scope_key d gw \<noteq> [] \<and> uid \<noteq> []
        \<and> (\<forall>c. Map_get (cache d) (cacheKey (scope_key d gw) uid) = Some c \<longrightarrow> expiresAt c \<le> now)
        \<and> lookupProfiles r d [uid] = (Inl e, leffs)"
  then have "getProfile r d gw uid now now' = profile_lookup r d gw uid now'"
    using getProfile_miss [of d gw uid now r now'] by auto
  with a show "getProfile r d gw uid now now' = (None, d, leffs @ [resolve_failed_warning e])"
    by (simp add: profile_lookup_def)
next
  assume a: "scope_key d gw \<noteq> [] \<and> uid \<noteq> []
        \<and> (\<forall>c. Map_get (cache d) (cacheKey (scope_key d gw) uid) = Some c \<longrightarrow> expiresAt c \<le> now)
        \<and> getProfile r d gw uid now t0 = (Some p, d', effs)
        \<and> lookupProfiles r2 d' [uid] = (res2, leffs2)"
  then have "profile_lookup r d gw uid t0 = (Some p, d', effs)"
    using getProfile_miss [of d gw uid now r t0] by auto
  then have d': "d' = d\<lparr>cache := Map_set (cacheKey (scope_key d gw) uid)
                        \<lparr>cp_profile = p, expiresAt = t0 + cacheTtlMs d\<rparr> (cache d)\<rparr>"
    by (rule profile_lookup_Some)
  have sk: "scope_key d' gw = scope_key d gw" by (cases gw) (simp_all add: d' scope_key_def)
  have ttl: "cacheTtlMs d' = cacheTtlMs d" by (simp add: d')
  have g: "Map_get (cache d') (cacheKey (scope_key d' gw) uid)
             = Some \<lparr>cp_profile = p, expiresAt = t0 + cacheTtlMs d\<rparr>"
    by (simp add: sk) (simp add: d' Map_get_set_same)
  show "Map_get (cache d') (cacheKey (scope_key d gw) uid)
            = Some \<lparr>cp_profile = p, expiresAt = t0 + cacheTtlMs d\<rparr>"
    using g by (simp add: sk)
  show "getProfile r2 d' gw uid (t0 + cacheTtlMs d - 1) later = (Some p, d', [])"
    using getProfile_hit [of d' gw uid _ "t0 + cacheTtlMs d - 1" r2 later, OF _ _ g] a sk by simp
  have "getProfile r2 d' gw uid (t0 + cacheTtlMs d + 1) later = profile_lookup r2 d' gw uid later"
    using getProfile_miss [of d' gw uid "t0 + cacheTtlMs d + 1" r2 later] a sk g by simp
  moreover from a have "lookupProfiles r2 d' [uid] = (res2, leffs2)" by blast
  ultimately show "getProfile r2 d' gw uid (t0 + cacheTtlMs d + 1) later =
              (case res2 of Inr (q # qs) \<Rightarrow> Some q | _ \<Rightarrow> None,
               case res2 of
                 Inr (q # qs) \<Rightarrow>
                   d'\<lparr>cache := Map_set (cacheKey (scope_key d gw) uid)
                                 \<lparr>cp_profile = q, expiresAt = later + cacheTtlMs d\<rparr> (cache d')\<rparr>
               | _ \<Rightarrow> d',
               leffs2 @ (case res2 of Inl e \<Rightarrow> [resolve_failed_warning e] | Inr qs \<Rightarrow> []))"
    using profile_lookup_explicit [of r2 d' uid res2 leffs2 gw later]
    by (simp add: sk ttl split: sum.splits list.splits)
qed (simp_all add: getProfile_guard getProfile_hit)

theorem getProfile_cache_ttl_witness:
  "getProfile sample_remote sample_directory (Some ''https://gw.example'') [] 0 0
     = (None, sample_directory, [])
   \<and> lookupProfiles sample_remote sample_directory [''2vxsx-fae'']
       = (Inr [alice], [RemoteQuery anonymous_query])
   \<and> getProfile sample_remote sample_directory (Some ''https://gw.example'') ''2vxsx-fae'' 0 1000
     = (Some alice, cached_directory, [RemoteQuery anonymous_query])
   \<and> remote_queries (snd (snd (getProfile sample_remote sample_directory
          (Some ''https://gw.example'') ''2vxsx-fae'' 0 1000))) = anonymous_query # []
   \<and> cacheTtlMs sample_directory = 900000
   \<and> Map_get (cache cached_directory)
        (cacheKey (scope_key cached_directory (Some ''https://gw.example'')) ''2vxsx-fae'')
       = Some \<lparr>cp_profile = alice, expiresAt = 901000\<rparr>
   \<and> getProfile failing_remote cached_directory (Some ''https://gw.example'') ''2vxsx-fae''
        (1000 + 900000 - 1) 950000
     = (Some alice, cached_directory, [])
   \<and> lookupProfiles failing_remote cached_directory [''2vxsx-fae'']
       = (Inl ''User directory query was rejected for aaaaa-aa'', [RemoteQuery anonymous_query])
   \<and> getProfile failing_remote cached_directory (Some ''https://gw.example'') ''2vxsx-fae''
        (1000 + 900000 + 1) 950000
     = (None, cached_directory,
        [RemoteQuery anonymous_query,
         resolve_failed_warning ''User directory query was rejected for aaaaa-aa''])
   \<and> getProfile failing_remote cached_directory (Some ''https://gw.example'') ''2vxsx-fae''
        5000 5000
     = (Some alice, cached_directory, [])
   \<and> getProfile failing_remote sample_directory (Some ''https://gw.example'') ''2vxsx-fae''
        0 1000
     = (None, sample_directory,
        [RemoteQuery anonymous_query,
         resolve_failed_warning ''User directory query was rejected for aaaaa-aa''])"
proof -
  let ?gw = "Some ''https://gw.example''"
  let ?uid = "''2vxsx-fae''"
  let ?c = "\<lparr>cp_profile = alice, expiresAt = 901000\<rparr>"
  let ?err = "''User directory query was rejected for aaaaa-aa''"
  let ?q = "[RemoteQuery anonymous_query]"
  have sk: "scope_key sample_directory ?gw = ''https://gw.example''"
    "scope_key cached_directory ?gw = ''https://gw.example''"
    by (simp_all add: scope_key_def)
  have ne: "scope_key sample_directory ?gw \<noteq> []" "scope_key cached_directory ?gw \<noteq> []"
    "?uid \<noteq> []"
    by (simp_all add: sk)
  have ttl: "cacheTtlMs sample_directory = 900000"
    by (simp add: sample_directory_def new_directory_def DEFAULT_CACHE_TTL_MS_def)
  have empty: "\<forall>c. Map_get (cache sample_directory)
        (cacheKey (scope_key sample_directory ?gw) ?uid) = Some c \<longrightarrow> expiresAt c \<le> 0"
    by (simp add: sample_directory_def new_directory_def Map_get_def)
  have hit: "Map_get (cache cached_directory)
        (cacheKey (scope_key cached_directory ?gw) ?uid) = Some ?c"
    by (simp add: sk) (simp add: cached_directory_def cacheKey_def Map_get_def)
  have l1: "lookupProfiles sample_remote sample_directory [?uid] = (Inr [alice], ?q)"
    by (simp add: sample_lookup sample_canister)
  have l2: "lookupProfiles failing_remote cached_directory [?uid] = (Inl ?err, ?q)"
    and l3: "lookupProfiles failing_remote sample_directory [?uid] = (Inl ?err, ?q)"
    by (simp_all add: failing_lookup sample_canister)
  have stored: "sample_directory\<lparr>cache := Map_set (cacheKey (scope_key sample_directory ?gw) ?uid)
                    \<lparr>cp_profile = alice, expiresAt = 1000 + cacheTtlMs sample_directory\<rparr>
                    (cache sample_directory)\<rparr> = cached_directory"
    by (simp add: sk ttl) (simp add: cacheKey_def cached_directory_def sample_directory_def
        new_directory_def)
  have pb: "principal_fromText sample_remote ?uid = Some [4]"
    "principal_fromText sample_remote (storageIndexCanisterId sample_directory) = Some []"
    by (simp_all add: sample_canister) (simp_all add: sample_remote_def)
  note G = getProfile_cache_ttl
    [where d = sample_directory and gw = "?gw" and uid = "[]" and r = sample_remote
       and now = 0 and now' = 0, THEN conjunct1, rule_format]
  have r1: "getProfile sample_remote sample_directory ?gw [] 0 0 = (None, sample_directory, [])"
    by (rule G) simp
  note M = getProfile_cache_ttl
    [where d = sample_directory and gw = "?gw" and uid = "?uid" and r = sample_remote
       and now = 0 and now' = 1000 and res = "Inr [alice]" and leffs = "?q"
       and b = "[4]" and cb = "[]" and ?t0.0 = 1000 and p = alice and d' = cached_directory
       and effs = "?q" and ?r2.0 = failing_remote and ?res2.0 = "Inl ?err" and ?leffs2.0 = "?q"
       and later = 950000]
  note M3 = M [THEN conjunct2, THEN conjunct2, THEN conjunct1, rule_format]
  note M4 = M [THEN conjunct2, THEN conjunct2, THEN conjunct2, THEN conjunct1, rule_format]
  note M7 = M [THEN conjunct2, THEN conjunct2, THEN conjunct2, THEN conjunct2, THEN conjunct2,
      THEN conjunct2, rule_format]
  have "getProfile sample_remote sample_directory ?gw ?uid 0 1000
     = (case Inr [alice] :: string + OpenChatUserProfile list of Inr (q # qs) \<Rightarrow> Some q | _ \<Rightarrow> None,
        case Inr [alice] :: string + OpenChatUserProfile list of
          Inr (q # qs) \<Rightarrow>
            sample_directory\<lparr>cache := Map_set (cacheKey (scope_key sample_directory ?gw) ?uid)
                \<lparr>cp_profile = q, expiresAt = 1000 + cacheTtlMs sample_directory\<rparr>
                (cache sample_directory)\<rparr>
        | _ \<Rightarrow> sample_directory,
        ?q @ (case Inr [alice] :: string + OpenChatUserProfile list of
                Inl e \<Rightarrow> [resolve_failed_warning e] | Inr qs \<Rightarrow> []))"
    by (rule M3) (intro conjI ne empty l1)
  then have r2: "getProfile sample_remote sample_directory ?gw ?uid 0 1000
     = (Some alice, cached_directory, ?q)"
    by (simp add: stored)
  have r2q: "remote_queries (snd (snd (getProfile sample_remote sample_directory ?gw ?uid 0 1000)))
     = anonymous_query # []"
    using M4 [OF conjI [OF ne(1) conjI [OF ne(3) conjI [OF empty conjI [OF pb(1) pb(2)]]]]]
    by (simp add: anonymous_query_def)
  have sc: "Map_get (cache cached_directory) (cacheKey (scope_key sample_directory ?gw) ?uid)
            = Some \<lparr>cp_profile = alice, expiresAt = 1000 + cacheTtlMs sample_directory\<rparr>
          \<and> getProfile failing_remote cached_directory ?gw ?uid
                (1000 + cacheTtlMs sample_directory - 1) 950000 = (Some alice, cached_directory, [])
          \<and> getProfile failing_remote cached_directory ?gw ?uid
                (1000 + cacheTtlMs sample_directory + 1) 950000 =
              (case Inl ?err :: string + OpenChatUserProfile list of
                 Inr (q # qs) \<Rightarrow> Some q | _ \<Rightarrow> None,
               case Inl ?err :: string + OpenChatUserProfile list of
                 Inr (q # qs) \<Rightarrow>
                   cached_directory\<lparr>cache := Map_set (cacheKey (scope_key sample_directory ?gw) ?uid)
                       \<lparr>cp_profile = q, expiresAt = 950000 + cacheTtlMs sample_directory\<rparr>
                       (cache cached_directory)\<rparr>
               | _ \<Rightarrow> cached_directory,
               ?q @ (case Inl ?err :: string + OpenChatUserProfile list of
                       Inl e \<Rightarrow> [resolve_failed_warning e] | Inr qs \<Rightarrow> []))"
    by (rule M7) (intro conjI ne empty r2 l2)
  have r3: "getProfile failing_remote cached_directory ?gw ?uid (1000 + 900000 - 1) 950000
     = (Some alice, cached_directory, [])"
    and r4: "getProfile failing_remote cached_directory ?gw ?uid (1000 + 900000 + 1) 950000
     = (None, cached_directory, [RemoteQuery anonymous_query, resolve_failed_warning ?err])"
    using sc by (simp_all add: ttl)
  note H = getProfile_cache_ttl
    [where d = cached_directory and gw = "?gw" and uid = "?uid" and r = failing_remote
       and now = 5000 and now' = 5000 and c = "?c",
     THEN conjunct2, THEN conjunct1, rule_format]
  have r5: "getProfile failing_remote cached_directory ?gw ?uid 5000 5000
     = (Some (cp_profile ?c), cached_directory, [])"
    by (rule H) (simp add: ne hit)
  note E = getProfile_cache_ttl
    [where d = sample_directory and gw = "?gw" and uid = "?uid" and r = failing_remote
       and now = 0 and now' = 1000 and e = "?err" and leffs = "?q",
     THEN conjunct2, THEN conjunct2, THEN conjunct2, THEN conjunct2, THEN conjunct1, rule_format]
  have r6: "getProfile failing_remote sample_directory ?gw ?uid 0 1000
     = (None, sample_directory, ?q @ [resolve_failed_warning ?err])"
    by (rule E) (intro conjI ne empty l3)
  show ?thesis using r1 l1 r2 r2q ttl hit r3 l2 r4 r5 r6 by simp
qed

text \<open>
  C7 as stated fails where the guard applies. With an empty gateway string and a valid
  user id there is no cache entry, and a lookup would issue a query and find the profile,
  yet \<open>getProfile\<close> returns \<open>null\<close> with no lookup; likewise for an empty user id.
\<close>

theorem getProfile_guard_skips_lookup:
  "Map_get (cache sample_directory) (cacheKey [] ''2vxsx-fae'') = None
   \<and> getProfile sample_remote sample_directory (Some []) ''2vxsx-fae'' 0 0
       = (None, sample_directory, [])
   \<and> profile_lookup sample_remote sample_directory (Some []) ''2vxsx-fae'' 0
       \<noteq> (None, sample_directory, [])
   \<and> lookupProfiles sample_remote sample_directory [''2vxsx-fae'']
       = (Inr [alice], [RemoteQuery anonymous_query])
   \<and> Map_get (cache sample_directory) (cacheKey ''https://gw.example'' []) = None
   \<and> getProfile sample_remote sample_directory (Some ''https://gw.example'') [] 0 0
       = (None, sample_directory, [])
   \<and> lookupProfiles sample_remote sample_directory ['''']
       = (Inr [], [invalid_principal_warning []])"
  by (simp add: getProfile_def scope_key_def Let_def sample_lookup sample_canister
      profile_lookup_def)
     (simp add: sample_directory_def new_directory_def Map_get_def lookupProfiles_def
      principalToBytes_def sample_remote_def List.map_filter_simps)

section \<open>Properties of the member welcome\<close>

text \<open>
  \<open>str_includes\<close> is the substring test, and \<open>trim\<close> leaves a front part that
  starts and ends with visible characters as it is.
\<close>

lemma str_includes_iff: "str_includes s t \<longleftrightarrow> (\<exists>a b. s = a @ t @ b)"
proof (induction s)
  case Nil
  then show ?case by auto
next
  case (Cons c s)
  show ?case
  proof
    assume "str_includes (c # s) t"
    then consider "take (length t) (c # s) = t" | "str_includes s t" by auto
    then show "\<exists>a b. c # s = a @ t @ b"
    proof cases
      case 1
      then have "c # s = [] @ t @ drop (length t) (c # s)"
        by (metis append_Nil append_take_drop_id)
      then show ?thesis by blast
    next
      case 2
      then obtain a b where "s = a @ t @ b" using Cons.IH by blast
      then have "c # s = (c # a) @ t @ b" by simp
      then show ?thesis by blast
    qed
  next
    assume "\<exists>a b. c # s = a @ t @ b"
    then obtain a b where ab: "c # s = a @ t @ b" by blast
    show "str_includes (c # s) t"
    proof (cases a)
      case Nil
      then have "take (length t) (c # s) = t" using ab by simp
      then show ?thesis by simp
    next
      case (Cons x a')
      then have "s = a' @ t @ b" using ab by simp
      then have "str_includes s t" using Cons.IH by blast
      then show ?thesis by simp
    qed
  qed
qed

lemma trim_keeps_front:
  assumes "m \<noteq> []" and "\<not> is_space (hd m)" and "\<not> is_space (last m)"
  shows "\<exists>t. trim (m @ x) = m @ t"
proof -
  from assms(1) obtain a m' where m: "m = a # m'" by (cases m) auto
  have front: "dropWhile is_space (m @ x) = m @ x" using assms(2) m by simp
  have lastm: "dropWhile is_space (rev m) = rev m"
    using assms(1,3) by (cases "rev m") (auto simp: last_rev [symmetric] hd_rev)
  have "dropWhile is_space (rev x @ rev m)
          = (if \<forall>c\<in>set (rev x). is_space c then rev m
             else dropWhile is_space (rev x) @ rev m)"
    by (simp add: dropWhile_append lastm)
  then have "trim (m @ x) = (if \<forall>c\<in>set (rev x). is_space c then m
             else m @ rev (dropWhile is_space (rev x)))"
    by (simp add: trim_def front)
  then show ?thesis by (metis append_Nil2)
qed

lemma mention_token_ends:
  "''@UserId('' @ uid @ '')'' \<noteq> []"
  "\<not> is_space (hd (''@UserId('' @ uid @ '')''))"
  "\<not> is_space (last (''@UserId('' @ uid @ '')''))"
  by (simp_all add: is_space_def)

lemma ensure_mention_includes:
  assumes "token = ''@UserId('' @ uid @ '')''"
  shows "str_includes (ensure_mention token msg) token"
    and "\<not> str_includes msg token \<Longrightarrow> take (length token) (ensure_mention token msg) = token"
    and "str_includes msg token \<Longrightarrow> ensure_mention token msg = msg"
proof -
  obtain t where t: "trim (token @ CHR '' '' # msg) = token @ t"
    using trim_keeps_front [of token "CHR '' '' # msg"] mention_token_ends [of uid] assms by auto
  have "str_includes (token @ t) token"
    unfolding str_includes_iff by (metis append_Nil)
  then show "str_includes (ensure_mention token msg) token"
    by (simp add: ensure_mention_def t)
  show "\<not> str_includes msg token \<Longrightarrow> take (length token) (ensure_mention token msg) = token"
    by (simp add: ensure_mention_def t)
  show "str_includes msg token \<Longrightarrow> ensure_mention token msg = msg"
    by (simp add: ensure_mention_def)
qed

lemma sent_texts_simps:
  "sent_texts [] = []"
  "sent_texts (Logged l # es) = sent_texts es"
  "sent_texts (RemoteQuery q # es) = sent_texts es"
  "sent_texts (SendText c t # es) = t # sent_texts es"
  "sent_texts (xs @ ys) = sent_texts xs @ sent_texts ys"
  by (simp_all add: sent_texts_def)

lemma sent_texts_warnings: "sent_texts (map invalid_principal_warning ids) = []"
  by (induction ids) (simp_all add: sent_texts_simps invalid_principal_warning_def)

lemma mapSummary_no_text: "sent_texts (snd (mapSummary r u)) = []"
  by (auto simp: mapSummary_def principalToText_def sent_texts_simps
      split: RawPrincipal.splits option.splits prod.splits)

lemma mapSummaries_no_text: "sent_texts (concat (map (snd \<circ> mapSummary r) us)) = []"
  by (induction us) (simp_all add: sent_texts_simps mapSummary_no_text)

lemma lookupProfiles_no_text: "sent_texts (snd (lookupProfiles r d ids)) = []"
  by (simp add: lookupProfiles_unfold Let_def sent_texts_simps sent_texts_warnings
      mapSummaries_no_text split: option.splits query_outcome.splits)

lemma getProfile_no_text: "sent_texts (snd (snd (getProfile r d gw uid now now'))) = []"
proof -
  have "sent_texts (snd (snd (profile_lookup r d gw uid now'))) = []"
    using lookupProfiles_no_text [of r d "[uid]"]
    by (auto simp: profile_lookup_def sent_texts_simps resolve_failed_warning_def
        split: prod.splits sum.splits list.splits)
  then show ?thesis
    by (simp add: getProfile_def Let_def sent_texts_simps)
qed

lemma resolveUserProfile_no_text:
  "sent_texts (snd (snd (resolveUserProfile r dir uid gw now now'))) = []"
proof (cases dir)
  case None
  then show ?thesis by (simp add: resolveUserProfile_def sent_texts_simps)
next
  case (Some d)
  obtain p d' effs where g: "getProfile r d gw uid now now' = (p, d', effs)"
    by (cases "getProfile r d gw uid now now'") auto
  then have "sent_texts effs = []" using getProfile_no_text [of r d gw uid now now'] by simp
  then show ?thesis by (simp add: resolveUserProfile_def Some g)
qed

lemma generate_welcome_no_text: "sent_texts (snd (generate_welcome rt who chat)) = []"
  by (simp add: generate_welcome_def Let_def sent_texts_simps split: option.splits)

lemma describeUser_mention: "mention (describeUser profile uid) = ''@UserId('' @ uid @ '')''"
  by (simp add: describeUser_def Let_def split: option.splits prod.splits)

lemma describeUser_unresolved:
  "describeUser None uid =
     \<lparr>descriptor = shortened uid, shortLabel = shortened uid,
      mention = ''@UserId('' @ uid @ '')''\<rparr>"
  by (simp add: describeUser_def truthy_def)

lemma handleMemberJoined_texts:
  assumes "ce_event chatEvent = MemberJoined uid" and "welcome_setting rt = Some ''true''"
    and "getInstallationByChatId svc (ce_chatId chatEvent) = Some inst"
  shows "sent_texts (snd (handleMemberJoined r rt svc dir chatEvent gw now now')) =
     [ensure_mention (''@UserId('' @ uid @ '')'')
        (fst (generate_welcome rt
           (describeUser
              (fst (resolveUserProfile r dir uid
                      (Some (or_else (rec_apiGateway (inst_record inst)) gw)) now now')) uid)
           (ce_chatId chatEvent)))]"
  using assms
    resolveUserProfile_no_text [of r dir uid "Some (or_else (rec_apiGateway (inst_record inst)) gw)" now now']
  by (auto simp: handleMemberJoined_def Let_def sent_texts_simps generate_welcome_no_text
      describeUser_mention split: prod.splits)

text \<open>
  C8. For every \<open>member_joined\<close> event that is handled (welcomes enabled and the
  installation known), whatever the text model produces, empty output and failure
  included, exactly one text is sent and it contains the mention token
  \<open>@UserId(<raw user id>)\<close> of the joining user: a text that already contains the token
  is sent as it is, any other gets the token in front. For a profile that cannot be
  resolved the label is the shortened raw id (the id itself up to 11 characters, else its
  first five and last four characters around three dots), and that label is what the
  stock welcome shows when the model gives nothing.
\<close>

theorem welcome_contains_mention:
  "(ce_event chatEvent = MemberJoined uid \<and> welcome_setting rt = Some ''true''
      \<and> getInstallationByChatId svc (ce_chatId chatEvent) = Some inst
      \<and> token = ''@UserId('' @ uid @ '')''
      \<and> msg = fst (generate_welcome rt
           (describeUser
              (fst (resolveUserProfile r dir uid
                      (Some (or_else (rec_apiGateway (inst_record inst)) gw)) now now')) uid)
           (ce_chatId chatEvent))
    \<longrightarrow> sent_texts (snd (handleMemberJoined r rt svc dir chatEvent gw now now'))
          = [ensure_mention token msg]
        \<and> str_includes (ensure_mention token msg) token
        \<and> (\<not> str_includes msg token \<longrightarrow> take (length token) (ensure_mention token msg) = token)
        \<and> (str_includes msg token \<longrightarrow> ensure_mention token msg = msg))
   \<and> describeUser None uid =
        \<lparr>descriptor = shortened uid, shortLabel = shortened uid,
         mention = ''@UserId('' @ uid @ '')''\<rparr>
   \<and> shortened uid = (if length uid \<le> 11 then uid
                       else take 5 uid @ ''...'' @ drop (length uid - 4) uid)
   \<and> ((case useModel rt (welcome_prompt (character_name rt) (descriptor who) (roomDescriptor chat)) of
          None \<Rightarrow> True | Some out \<Rightarrow> trim out = [])
      \<longrightarrow> fst (generate_welcome rt who chat) = stock_welcome (shortLabel who))"
proof (intro conjI impI)
  assume a: "ce_event chatEvent = MemberJoined uid \<and> welcome_setting rt = Some ''true''
      \<and> getInstallationByChatId svc (ce_chatId chatEvent) = Some inst
      \<and> token = ''@UserId('' @ uid @ '')''
      \<and> msg = fst (generate_welcome rt
           (describeUser
              (fst (resolveUserProfile r dir uid
                      (Some (or_else (rec_apiGateway (inst_record inst)) gw)) now now')) uid)
           (ce_chatId chatEvent))"
  then show "sent_texts (snd (handleMemberJoined r rt svc dir chatEvent gw now now'))
          = [ensure_mention token msg]"
    using handleMemberJoined_texts [of chatEvent uid rt svc inst r dir gw now now'] by simp
  from a have t: "token = ''@UserId('' @ uid @ '')''" by simp
  show "str_includes (ensure_mention token msg) token"
    using t by (rule ensure_mention_includes(1))
  show "\<not> str_includes msg token \<Longrightarrow> take (length token) (ensure_mention token msg) = token"
    using t by (rule ensure_mention_includes(2))
  show "str_includes msg token \<Longrightarrow> ensure_mention token msg = msg"
    using t by (rule ensure_mention_includes(3))
next
  show "describeUser None uid =
        \<lparr>descriptor = shortened uid, shortLabel = shortened uid,
         mention = ''@UserId('' @ uid @ '')''\<rparr>"
    by (rule describeUser_unresolved)
next
  show "shortened uid = (if length uid \<le> 11 then uid
                       else take 5 uid @ ''...'' @ drop (length uid - 4) uid)"
    by (simp add: shortened_def slice_head_def slice_tail_def)
next
  assume "case useModel rt (welcome_prompt (character_name rt) (descriptor who) (roomDescriptor chat)) of
          None \<Rightarrow> True | Some out \<Rightarrow> trim out = []"
  then show "fst (generate_welcome rt who chat) = stock_welcome (shortLabel who)"
    by (simp add: generate_welcome_def Let_def split: option.splits)
qed

theorem welcome_contains_mention_witness:
  "ce_event (chat_event (MemberJoined ''abcde-fghij-klmno'')) = MemberJoined ''abcde-fghij-klmno''
   \<and> welcome_setting sample_runtime = Some ''true''
   \<and> getInstallationByChatId sample_service (ce_chatId (chat_event (MemberJoined ''abcde-fghij-klmno'')))
       = Some (sample_installation (GroupChatIdentifier ''42''))
   \<and> fst (resolveUserProfile sample_remote (Some sample_directory) ''abcde-fghij-klmno''
             (Some ''https://gw.example'') 0 0) = None
   \<and> useModel sample_runtime
         (welcome_prompt ''Eliza'' ''abcde...lmno'' ''group 42'') = None
   \<and> sent_texts (snd (handleMemberJoined sample_remote sample_runtime sample_service
                        (Some sample_directory)
                        (chat_event (MemberJoined ''abcde-fghij-klmno'')) ''https://other.example'' 0 0))
       = [''@UserId(abcde-fghij-klmno) Welcome to the chat, abcde...lmno! '' @ waving_hand]
   \<and> str_includes (''@UserId(abcde-fghij-klmno) Welcome to the chat, abcde...lmno! '' @ waving_hand)
         ''@UserId(abcde-fghij-klmno)''"
proof -
  let ?uid = "''abcde-fghij-klmno''"
  let ?ev = "chat_event (MemberJoined ?uid)"
  let ?inst = "sample_installation (GroupChatIdentifier ''42'')"
  let ?token = "''@UserId(abcde-fghij-klmno)''"
  let ?who = "describeUser None ?uid"
  let ?text = "''@UserId(abcde-fghij-klmno) Welcome to the chat, abcde...lmno! '' @ waving_hand"
  have e: "ce_event ?ev = MemberJoined ?uid" and c: "ce_chatId ?ev = GroupChat ''42''"
    by (simp_all add: chat_event_def)
  have w: "welcome_setting sample_runtime = Some ''true''" by (simp add: sample_runtime_def)
  have i: "getInstallationByChatId sample_service (ce_chatId ?ev) = Some ?inst"
    by (simp add: c getInstallationByChatId_def sample_installations Map_get_def)
  have gwy: "or_else (rec_apiGateway (inst_record ?inst)) ''https://other.example''
               = ''https://gw.example''"
    by (simp add: sample_installation_def sample_record_def or_else_def)
  have p: "fst (resolveUserProfile sample_remote (Some sample_directory) ?uid
             (Some ''https://gw.example'') 0 0) = None"
    by (simp add: resolveUserProfile_def getProfile_def scope_key_def Let_def profile_lookup_def
        lookupProfiles_def principalToBytes_def List.map_filter_simps sample_remote_def
        sample_directory_def new_directory_def Map_get_def split: prod.splits)
  have sh: "shortened ?uid = ''abcde...lmno''"
    by (simp add: shortened_def slice_head_def slice_tail_def)
  have m: "useModel sample_runtime (welcome_prompt ''Eliza'' ''abcde...lmno'' ''group 42'') = None"
    by (simp add: sample_runtime_def)
  note T = welcome_contains_mention
    [where chatEvent = "?ev" and uid = "?uid" and rt = sample_runtime and svc = sample_service
       and inst = "?inst" and token = "?token" and r = sample_remote
       and dir = "Some sample_directory" and gw = "''https://other.example''" and now = 0
       and now' = 0 and who = "?who" and chat = "GroupChat ''42''"
       and msg = "stock_welcome ''abcde...lmno''"]
  note T1 = T [THEN conjunct1, rule_format]
  note T2 = T [THEN conjunct2, THEN conjunct1]
  note T4 = T [THEN conjunct2, THEN conjunct2, THEN conjunct2, rule_format]
  have d: "shortLabel ?who = ''abcde...lmno''"
    by (simp only: T2 sh member.simps)
  have g: "fst (generate_welcome sample_runtime ?who (GroupChat ''42'')) = stock_welcome ''abcde...lmno''"
  proof -
    have "useModel sample_runtime
            (welcome_prompt (character_name sample_runtime) (descriptor ?who)
               (roomDescriptor (GroupChat ''42''))) = None"
      by (simp add: sample_runtime_def)
    then have "fst (generate_welcome sample_runtime ?who (GroupChat ''42''))
                 = stock_welcome (shortLabel ?who)"
      by (intro T4) simp
    then show ?thesis by (simp only: d)
  qed
  have em: "ensure_mention ?token (stock_welcome ''abcde...lmno'') = ?text"
    by (simp add: ensure_mention_def stock_welcome_def waving_hand_def trim_def is_space_def)
  have msg: "stock_welcome ''abcde...lmno''
      = fst (generate_welcome sample_runtime
           (describeUser
              (fst (resolveUserProfile sample_remote (Some sample_directory) ?uid
                      (Some (or_else (rec_apiGateway (inst_record ?inst)) ''https://other.example''))
                      0 0)) ?uid)
           (ce_chatId ?ev))"
    by (simp only: gwy p c g)
  have tk: "?token = ''@UserId('' @ ?uid @ '')''" by simp
  have r: "sent_texts (snd (handleMemberJoined sample_remote sample_runtime sample_service
                        (Some sample_directory) ?ev ''https://other.example'' 0 0))
       = [ensure_mention ?token (stock_welcome ''abcde...lmno'')]
     \<and> str_includes (ensure_mention ?token (stock_welcome ''abcde...lmno'')) ?token"
    using T1 [OF conjI [OF e conjI [OF w conjI [OF i conjI [OF tk msg]]]]] by blast
  have r1: "sent_texts (snd (handleMemberJoined sample_remote sample_runtime sample_service
                        (Some sample_directory) ?ev ''https://other.example'' 0 0)) = [?text]"
    and r2: "str_includes ?text ?token"
    using r by (simp_all only: em)
  show ?thesis using e w i p m r1 r2 by blast
qed

end
